theory Spec2Isabelle
  imports Complex_Main "HOL-Library.Log_Nat"
begin

section \<open>Conventions of the embedding\<close>

text \<open>
  The development embeds the progression engine of \<^verbatim>\<open>src/App.jsx\<close>: the plan
  generator, the session scoring, the recommendation and reduction logic, and the
  state transition performed by \<^verbatim>\<open>saveSession\<close>.

  \<^item> Week numbers, set counts, repetition counts and array indices are integers in
    the program (they come from loops, steppers and integer formulas); they are
    \<^typ>\<open>int\<close> or \<^typ>\<open>nat\<close> here.
  \<^item> Ratios, scores and the reported effort are JavaScript numbers that take
    fractional values, that is, IEEE 754 doubles. A finite double is the rational
    number it denotes, of type \<^typ>\<open>rat\<close>, and every division, product, sum and
    difference of the scoring is followed by the rounding to the nearest double
    (\<open>round_double\<close> below). An integer of the model stands for the double of that
    value; the quotients and sums of the scoring then stay within the finite
    doubles, so that neither an infinity nor a NaN arises.
  \<^item> A JavaScript object with optional properties is a record whose fields are
    options; \<^verbatim>\<open>x ?? y\<close> is a case distinction on the option.
  \<^item> Strings are \<^typ>\<open>string\<close>. A character outside ASCII is written as the
    bytes of its UTF-8 encoding.
\<close>

section \<open>Utilities\<close>

text \<open>\<^verbatim>\<open>const clamp = (n, a, b) => Math.max(a, Math.min(b, n))\<close>\<close>

definition clamp :: "'a::linorder \<Rightarrow> 'a \<Rightarrow> 'a \<Rightarrow> 'a" where
  "clamp n a b = max a (min b n)"

text \<open>
  The arithmetic of doubles. A real number \<open>x\<close> other than 0 with
  \<open>2^e \<le> |x| < 2^(e+1)\<close> is rounded to the nearest multiple of \<open>2^(e-52)\<close>, and
  of \<open>2^(-1074)\<close> when \<open>e\<close> is below -1022 (the subnormal range); of two nearest
  multiples the even one is taken. Every arithmetic operation of JavaScript returns
  the exact result rounded in this way, and a decimal literal denotes the rounding
  of its value.
\<close>

definition round_half_even :: "rat \<Rightarrow> int" where
  "round_half_even y =
     (let f = \<lfloor>y\<rfloor>; r = y - of_int f
      in if r < 1 / 2 then f else if 1 / 2 < r then f + 1
         else if even f then f else f + 1)"

text \<open>The exponent \<open>e\<close> with \<open>2^e \<le> x < 2^(e+1)\<close>, for a positive \<open>x\<close>.\<close>

definition floor_log2 :: "rat \<Rightarrow> int" where
  "floor_log2 x = (if 1 \<le> x then bitlen \<lfloor>x\<rfloor> - 1 else - bitlen (\<lceil>1 / x\<rceil> - 1))"

definition round_double :: "rat \<Rightarrow> rat" where
  "round_double x =
     (if x = 0 then 0
      else let e = floor_log2 \<bar>x\<bar>;
               q = power_int 2 (max e (- 1022) - 52)
           in of_int (round_half_even (x / q)) * q)"

text \<open>The en dash and the em dash that occur in titles and rest hints.\<close>

definition en_dash :: string where
  "en_dash = [CHR 0xE2, CHR 0x80, CHR 0x93]"

definition em_dash :: string where
  "em_dash = [CHR 0xE2, CHR 0x80, CHR 0x94]"

text \<open>
  Template literals print an integer in decimal: \<^verbatim>\<open>`${idx}`\<close>, \<^verbatim>\<open>`${week}`\<close>.
\<close>

definition digit_char :: "nat \<Rightarrow> char" where
  "digit_char d = char_of (48 + d)"

function string_of_nat :: "nat \<Rightarrow> string" where
  "string_of_nat n =
     (if n < 10 then [digit_char n]
      else string_of_nat (n div 10) @ [digit_char (n mod 10)])"
  by pat_completeness auto
termination
  by (relation "measure (\<lambda>n. n)") auto

declare string_of_nat.simps [simp del]

definition string_of_int :: "int \<Rightarrow> string" where
  "string_of_int i =
     (if i < 0 then ''-'' @ string_of_nat (nat (- i)) else string_of_nat (nat i))"

section \<open>Plan generator\<close>

record day =
  id' :: string
  name :: string

definition DAYS :: "day list" where
  "DAYS =
    [\<lparr>id' = ''A'', name = ''D'' @ [CHR 0xC3, CHR 0xAD] @ ''a 1''\<rparr>,
     \<lparr>id' = ''B'', name = ''D'' @ [CHR 0xC3, CHR 0xAD] @ ''a 2''\<rparr>,
     \<lparr>id' = ''C'', name = ''D'' @ [CHR 0xC3, CHR 0xAD] @ ''a 3''\<rparr>,
     \<lparr>id' = ''D'', name = ''D'' @ [CHR 0xC3, CHR 0xAD] @ ''a 4''\<rparr>]"

text \<open>
  Of \<^verbatim>\<open>exerciseLibrary\<close> the engine reads the title only
  (\<^verbatim>\<open>ex?.title ?? it.exerciseId\<close>); the table maps an exercise id to its title.
\<close>

definition exerciseLibrary :: "(string \<times> string) list" where
  "exerciseLibrary =
    [(''warmup'', ''Calentamiento (5'' @ en_dash @ ''7 min)''),
     (''cooldown'', ''Vuelta a la calma (3'' @ en_dash @ ''5 min)''),
     (''inclinePushUp'', ''Flexiones inclinadas''),
     (''chairSquat'', ''Sentadilla a silla''),
     (''tableRow'', ''Remo bajo mesa (inverted row)''),
     (''gluteBridge'', ''Puente de gl'' @ [CHR 0xC3, CHR 0xBA] @ ''teo''),
     (''deadBug'', ''Dead bug''),
     (''plank'', ''Plancha''),
     (''stepUp'', ''Step-ups''),
     (''calfRaise'', ''Elevaci'' @ [CHR 0xC3, CHR 0xB3] @ ''n de gemelos''),
     (''scapularPushUp'', ''Flexi'' @ [CHR 0xC3, CHR 0xB3] @ ''n escapular''),
     (''marchInPlace'', ''Marcha en el sitio (zona 2 suave)'')]"

definition isDeloadWeek :: "int \<Rightarrow> bool" where
  "isDeloadWeek week \<longleftrightarrow> week = 8 \<or> week = 16"

definition setsForWeek :: "int \<Rightarrow> int" where
  "setsForWeek week =
     (let sets = 2;
          sets = (if week \<ge> 5 then 3 else sets);
          sets = (if week \<ge> 13 then 4 else sets);
          sets = (if isDeloadWeek week then max 2 (sets - 1) else sets)
      in sets)"

text \<open>\<^verbatim>\<open>Math.floor((week - 1) / 2)\<close>, the division being that of numbers.\<close>

definition repsForWeek :: "int \<Rightarrow> int \<Rightarrow> int" where
  "repsForWeek week baseReps =
     (let add = \<lfloor>(of_int (week - 1) :: rat) / 2\<rfloor>;
          reps = baseReps + add;
          reps = (if isDeloadWeek week then max 4 (reps - 2) else reps)
      in reps)"

definition secondsForWeek :: "int \<Rightarrow> int \<Rightarrow> int" where
  "secondsForWeek week baseSeconds =
     (let add = \<lfloor>(of_int (week - 1) :: rat) / 2\<rfloor> * 5;
          s = baseSeconds + add;
          s = (if isDeloadWeek week then max 10 (s - 10) else s)
      in s)"

text \<open>
  A session item. A block item is \<^verbatim>\<open>{ type: "block", exerciseId }\<close> and has no
  other property.
\<close>

record item =
  type :: string
  exerciseId :: string
  sets :: "int option"
  reps :: "int option"
  unit :: "string option"
  rest :: "string option"

record session =
  id' :: string
  title :: string
  items :: "item list"

record weekPlan =
  week :: int
  sets :: int
  sessions :: "session list"

definition block_item :: "string \<Rightarrow> item" where
  "block_item ex =
     \<lparr>type = ''block'', exerciseId = ex, sets = None, reps = None, unit = None,
      rest = None\<rparr>"

definition measured_item ::
  "string \<Rightarrow> string \<Rightarrow> int \<Rightarrow> int \<Rightarrow> string \<Rightarrow> string \<Rightarrow> item" where
  "measured_item ty ex s r u rst =
     \<lparr>type = ty, exerciseId = ex, sets = Some s, reps = Some r, unit = Some u,
      rest = Some rst\<rparr>"

definition buildWeekPlan :: "int \<Rightarrow> weekPlan" where
  "buildWeekPlan = (\<lambda>week.
      let sets = setsForWeek week;
          pushReps = repsForWeek week 6;
          squatReps = repsForWeek week 8;
          rowReps = repsForWeek week 5;
          bridgeReps = repsForWeek week 10;
          deadBugReps = repsForWeek week 6;
          stepUpReps = repsForWeek week 8;
          calfReps = repsForWeek week 10;
          scapReps = repsForWeek week 8;
          plankSec = secondsForWeek week 20;
          marchMin = clamp (8 + \<lfloor>(of_int (week - 1) :: rat) / 2\<rfloor>) 8 20;
          marchMinDeload = max 6 (marchMin - 4);
          march = measured_item ''time'' ''marchInPlace'' 1
                    (if isDeloadWeek week then marchMinDeload else marchMin)
                    ''min'' em_dash;
          warm = block_item ''warmup'';
          cool = block_item ''cooldown'';
          r4560 = ''45'' @ en_dash @ ''60s'';
          r6090 = ''60'' @ en_dash @ ''90s'';
          A = \<lparr>id' = ''A'', title = ''Empuje + Core'', items =
                [warm,
                 measured_item ''reps'' ''scapularPushUp'' (max 2 (sets - 1)) scapReps ''reps'' r4560,
                 measured_item ''reps'' ''inclinePushUp'' sets pushReps ''reps'' r6090,
                 measured_item ''reps'' ''gluteBridge'' sets bridgeReps ''reps'' ''60s'',
                 measured_item ''reps'' ''deadBug'' sets deadBugReps ''reps/lado'' r4560,
                 measured_item ''time'' ''plank'' sets plankSec ''s'' r4560,
                 cool]\<rparr>;
          B = \<lparr>id' = ''B'', title = ''Pierna + Tir'' @ [CHR 0xC3, CHR 0xB3] @ ''n'', items =
                [warm,
                 measured_item ''reps'' ''chairSquat'' sets squatReps ''reps'' r6090,
                 measured_item ''reps'' ''stepUp'' sets stepUpReps ''reps/lado'' r6090,
                 measured_item ''reps'' ''tableRow'' sets rowReps ''reps'' r6090,
                 measured_item ''reps'' ''calfRaise'' (max 2 (sets - 1)) calfReps ''reps'' r4560,
                 march,
                 cool]\<rparr>;
          C = \<lparr>id' = ''C'',
               title = ''Full body (t'' @ [CHR 0xC3, CHR 0xA9] @ ''cnica)'', items =
                [warm,
                 measured_item ''reps'' ''inclinePushUp'' (max 2 (sets - 1)) (max 4 (pushReps - 1)) ''reps'' r6090,
                 measured_item ''reps'' ''chairSquat'' (max 2 (sets - 1)) (max 6 (squatReps - 2)) ''reps'' r6090,
                 measured_item ''reps'' ''tableRow'' (max 2 (sets - 1)) (max 4 (rowReps - 1)) ''reps'' r6090,
                 measured_item ''reps'' ''deadBug'' (max 2 (sets - 1)) (max 5 (deadBugReps - 1)) ''reps/lado'' r4560,
                 measured_item ''time'' ''plank'' (max 2 (sets - 1)) (max 15 (plankSec - 5)) ''s'' r4560,
                 cool]\<rparr>;
          D = \<lparr>id' = ''D'',
               title = ''Tir'' @ [CHR 0xC3, CHR 0xB3] @ ''n + Core + Suave'', items =
                [warm,
                 measured_item ''reps'' ''tableRow'' sets rowReps ''reps'' r6090,
                 measured_item ''reps'' ''gluteBridge'' (max 2 (sets - 1)) bridgeReps ''reps'' ''60s'',
                 measured_item ''reps'' ''deadBug'' sets deadBugReps ''reps/lado'' r4560,
                 measured_item ''time'' ''plank'' sets plankSec ''s'' r4560,
                 march,
                 cool]\<rparr>
      in \<lparr>week = week, sets = sets, sessions = [A, B, C, D]\<rparr>)"

text \<open>\<^verbatim>\<open>for (let w = 1; w <= 20; w++) weeks.push(buildWeekPlan(w))\<close>\<close>

definition getPlan20Weeks :: "weekPlan list" where
  "getPlan20Weeks = map buildWeekPlan [1..20]"

section \<open>JavaScript helpers\<close>

text \<open>\<^verbatim>\<open>x ?? y\<close> where \<^verbatim>\<open>y\<close> may be undefined as well, and where it is a value.\<close>

definition orElse :: "'a option \<Rightarrow> 'a option \<Rightarrow> 'a option" where
  "orElse x y = (case x of None \<Rightarrow> y | Some v \<Rightarrow> Some v)"

definition orDefault :: "'a option \<Rightarrow> 'a \<Rightarrow> 'a" where
  "orDefault x d = (case x of None \<Rightarrow> d | Some v \<Rightarrow> v)"

text \<open>
  \<^verbatim>\<open>xs.forEach((x, idx) => ...)\<close>: the callback runs on every element in order, with
  its index; the variables it assigns are the state \<open>s\<close> threaded through.
\<close>

fun forEach_from :: "nat \<Rightarrow> 'a list \<Rightarrow> ('a \<Rightarrow> nat \<Rightarrow> 's \<Rightarrow> 's) \<Rightarrow> 's \<Rightarrow> 's" where
  "forEach_from idx [] f s = s"
| "forEach_from idx (x # xs) f s = forEach_from (Suc idx) xs f (f x idx s)"

definition forEach :: "'a list \<Rightarrow> ('a \<Rightarrow> nat \<Rightarrow> 's \<Rightarrow> 's) \<Rightarrow> 's \<Rightarrow> 's" where
  "forEach xs f s = forEach_from 0 xs f s"

text \<open>\<^verbatim>\<open>xs.findIndex(p)\<close>: the first index whose element satisfies \<open>p\<close>, or -1.\<close>

fun findIndex_from :: "int \<Rightarrow> ('a \<Rightarrow> bool) \<Rightarrow> 'a list \<Rightarrow> int" where
  "findIndex_from i p [] = - 1"
| "findIndex_from i p (x # xs) = (if p x then i else findIndex_from (i + 1) p xs)"

definition findIndex :: "('a \<Rightarrow> bool) \<Rightarrow> 'a list \<Rightarrow> int" where
  "findIndex p xs = findIndex_from 0 p xs"

section \<open>Scoring and recommendation\<close>

record actual =
  setsDone :: "int option"
  repsDone :: "int option"
  notes' :: "string option"

record target =
  sets :: "int option"
  reps :: "int option"

type_synonym actuals = "string \<rightharpoonup> actual"
type_synonym targets = "string \<rightharpoonup> target"

record scoreObj =
  pct :: rat
  score :: rat

text \<open>\<^verbatim>\<open>`${it.exerciseId}:${idx}`\<close>\<close>

definition itemKey_of :: "item \<Rightarrow> nat \<Rightarrow> string" where
  "itemKey_of it idx = exerciseId it @ '':'' @ string_of_nat idx"

definition scoreSession :: "item list \<Rightarrow> actuals \<Rightarrow> targets \<Rightarrow> rat \<Rightarrow> scoreObj" where
  "scoreSession = (\<lambda>items actualByItemId targetsByItemId rpe.
     let (total, sum) =
           forEach items (\<lambda>it idx (total, sum).
             if type it = ''block'' then (total, sum)
             else
               let itemKey = itemKey_of it idx;
                   a = actualByItemId itemKey;
                   t = orDefault (targetsByItemId itemKey)
                         \<lparr>target.sets = item.sets it, target.reps = item.reps it\<rparr>;
                   targetSets = max 1 (orDefault (orElse (target.sets t) (item.sets it)) 1);
                   targetReps = max 1 (orDefault (orElse (target.reps t) (item.reps it)) 1);
                   setsDone = max 0 (orDefault (Option.bind a actual.setsDone) 0);
                   repsDone = max 0 (orDefault (Option.bind a actual.repsDone) 0);
                   setsRatio =
                     clamp (round_double (of_int setsDone / of_int targetSets)) 0 1;
                   repsRatio =
                     clamp (round_double (of_int repsDone / of_int targetReps)) 0 1;
                   itemScore =
                     round_double (round_double (0.5 * setsRatio)
                                   + round_double (0.5 * repsRatio))
               in (total + 1, round_double (sum + itemScore)))
             (0 :: int, 0 :: rat);
         pct = (if total = 0 then 0 else round_double (sum / of_int total));
         rpePenalty =
           (if rpe \<ge> 9 then round_double 0.2 else if rpe \<ge> 8 then round_double 0.1
            else 0);
         score = clamp (round_double (pct - rpePenalty)) 0 1
     in \<lparr>pct = pct, score = score\<rparr>)"

record recommendation =
  level :: string
  label :: string

definition recommendationFromScore :: "scoreObj \<Rightarrow> recommendation" where
  "recommendationFromScore scoreObj =
     (if scoreObj.score scoreObj \<ge> 0.8 then \<lparr>level = ''advance'', label = ''Avanza''\<rparr>
      else if scoreObj.score scoreObj \<ge> 0.55
        then \<lparr>level = ''hold'', label = ''Mant'' @ [CHR 0xC3, CHR 0xA9] @ ''n''\<rparr>
      else \<lparr>level = ''reduce'',
             label = ''Repite m'' @ [CHR 0xC3, CHR 0xA1] @ ''s f'' @ [CHR 0xC3, CHR 0xA1] @ ''cil''\<rparr>)"

text \<open>The objects \<^verbatim>\<open>from\<close> and \<^verbatim>\<open>to\<close> of a suggestion: \<^verbatim>\<open>{ sets, reps, unit }\<close>.\<close>

record quantity =
  sets :: int
  reps :: int
  unit :: "string option"

record suggestion =
  itemKey :: string
  exerciseId :: string
  title :: string
  from' :: quantity
  to' :: quantity

definition suggestReduction :: "item list \<Rightarrow> actuals \<Rightarrow> targets \<Rightarrow> suggestion list" where
  "suggestReduction = (\<lambda>items actualByItemId targetsByItemId.
     forEach items (\<lambda>it idx out.
       if type it = ''block'' then out
       else
         let itemKey = itemKey_of it idx;
             ex = map_of exerciseLibrary (item.exerciseId it);
             a = actualByItemId itemKey;
             t = orDefault (targetsByItemId itemKey)
                   \<lparr>target.sets = item.sets it, target.reps = item.reps it\<rparr>;
             targetSets = max 1 (orDefault (orElse (target.sets t) (item.sets it)) 1);
             targetReps = max 1 (orDefault (orElse (target.reps t) (item.reps it)) 1);
             setsDone = orDefault (Option.bind a actual.setsDone) 0;
             repsDone = orDefault (Option.bind a actual.repsDone) 0;
             noData = (a = None);
             newSets = targetSets;
             newReps = targetReps;
             newSets = (if noData \<or> setsDone < targetSets then max 1 (targetSets - 1)
                        else newSets);
             newReps = (if noData \<or> repsDone < targetReps
                        then (if type it = ''time''
                              then (let delta = (if item.unit it = Some ''min'' then 1 else 5)
                                    in max 1 (targetReps - delta))
                              else max 1 (targetReps - 2))
                        else newReps)
         in if newSets = targetSets \<and> newReps = targetReps then out
            else out @
              [\<lparr>itemKey = itemKey,
                exerciseId = item.exerciseId it,
                title = orDefault ex (item.exerciseId it),
                from' = \<lparr>sets = targetSets, reps = targetReps, unit = item.unit it\<rparr>,
                to' = \<lparr>sets = newSets, reps = newReps, unit = item.unit it\<rparr>\<rparr>])
       [])"

section \<open>Progression controller\<close>

text \<open>
  The state of the \<^verbatim>\<open>App\<close> component that \<^verbatim>\<open>saveSession\<close> reads and writes:
  the four \<^verbatim>\<open>useState\<close> cells \<^verbatim>\<open>appState\<close>, \<^verbatim>\<open>customTargets\<close>, \<^verbatim>\<open>logs\<close>
  and \<^verbatim>\<open>draft\<close>.
\<close>

record appState =
  week :: int
  dayId :: string
  smartProgression :: bool

record draft =
  actualByItemId :: actuals
  rpe :: rat
  completed :: bool
  date :: string

record sessionLog =
  id' :: string
  createdAt :: string
  date :: string
  week :: int
  dayId :: string
  sessionTitle :: string
  rpe :: rat
  score :: rat
  pct :: rat
  recommendation :: string
  actualByItemId :: actuals
  completed :: bool

record logs =
  order :: "string list"
  byId :: "string \<rightharpoonup> sessionLog"

record app =
  appState :: appState
  customTargets :: targets
  logs :: logs
  draft :: draft

text \<open>\<^verbatim>\<open>`${week}-${dayId}-${itemKey}`\<close>\<close>

definition targetPath :: "int \<Rightarrow> string \<Rightarrow> string \<Rightarrow> string" where
  "targetPath = (\<lambda>week dayId itemKey.
     string_of_int week @ ''-'' @ dayId @ ''-'' @ itemKey)"

text \<open>
  The values the component derives from its state on every render:
  \<^verbatim>\<open>session\<close>, \<^verbatim>\<open>targetsByItemId\<close>, \<^verbatim>\<open>scoreObj\<close>, \<^verbatim>\<open>rec\<close> and
  \<^verbatim>\<open>reduceSuggestions\<close>.
\<close>

definition app_session :: "app \<Rightarrow> session" where
  "app_session st =
     (let plan = getPlan20Weeks;
          weekObj = orDefault
            (List.find (\<lambda>w. weekPlan.week w = appState.week (app.appState st)) plan)
            (plan ! 0);
          session = orDefault
            (List.find (\<lambda>s. session.id' s = appState.dayId (app.appState st))
               (sessions weekObj))
            (sessions weekObj ! 0)
      in session)"

definition app_targetsByItemId :: "app \<Rightarrow> targets" where
  "app_targetsByItemId st =
     forEach (items (app_session st)) (\<lambda>it idx m.
       if type it = ''block'' then m
       else
         let itemKey = itemKey_of it idx;
             path = targetPath (appState.week (app.appState st))
                      (appState.dayId (app.appState st)) itemKey;
             ct = app.customTargets st path
         in m(itemKey \<mapsto>
              \<lparr>target.sets = orElse (Option.bind ct target.sets) (item.sets it),
               target.reps = orElse (Option.bind ct target.reps) (item.reps it)\<rparr>))
       Map.empty"

definition app_scoreObj :: "app \<Rightarrow> scoreObj" where
  "app_scoreObj st =
     scoreSession (items (app_session st)) (draft.actualByItemId (app.draft st))
       (app_targetsByItemId st) (draft.rpe (app.draft st))"

definition app_rec :: "app \<Rightarrow> recommendation" where
  "app_rec st = recommendationFromScore (app_scoreObj st)"

definition app_reduceSuggestions :: "app \<Rightarrow> suggestion list" where
  "app_reduceSuggestions st =
     (if level (app_rec st) \<noteq> ''reduce'' then []
      else suggestReduction (items (app_session st))
             (draft.actualByItemId (app.draft st)) (app_targetsByItemId st))"

text \<open>
  \<^verbatim>\<open>applySuggestions\<close> calls \<^verbatim>\<open>setCustomTargets\<close> with an updater; the function
  below is that updater applied to the current overrides, for the week and day of
  the current \<^verbatim>\<open>appState\<close>.
\<close>

definition applySuggestions :: "int \<Rightarrow> string \<Rightarrow> suggestion list \<Rightarrow> targets \<Rightarrow> targets" where
  "applySuggestions = (\<lambda>week dayId suggestions prev.
     if suggestions = [] then prev
     else forEach suggestions (\<lambda>sug idx next.
            let path = targetPath week dayId (itemKey sug)
            in next(path \<mapsto>
                 \<lparr>target.sets = Some (quantity.sets (to' sug)),
                  target.reps = Some (quantity.reps (to' sug))\<rparr>))
          prev)"

text \<open>
  \<^verbatim>\<open>saveSession\<close>. The three values it takes from the environment are
  parameters: \<open>uid\<close> is the result of \<^verbatim>\<open>uid()\<close>, \<open>now\<close> that of
  \<^verbatim>\<open>new Date().toISOString()\<close>, \<open>today\<close> that of \<^verbatim>\<open>todayISO()\<close>. Every
  \<^verbatim>\<open>set...\<close> call writes one cell of the state; the result is the state after
  all of them.
\<close>

definition saveSession :: "string \<Rightarrow> string \<Rightarrow> string \<Rightarrow> app \<Rightarrow> app" where
  "saveSession uid now today st =
     (let s = app.appState st;
          d = app.draft st;
          rec = app_rec st;
          suggestionsToApply =
            (if level rec = ''reduce'' then app_reduceSuggestions st else []);
          customTargets' =
            (if smartProgression s \<and> level rec = ''reduce'' \<and> suggestionsToApply \<noteq> []
             then applySuggestions (appState.week s) (appState.dayId s) suggestionsToApply
                    (app.customTargets st)
             else app.customTargets st);
          payload =
            \<lparr>sessionLog.id' = uid,
             createdAt = now,
             date = draft.date d,
             week = appState.week s,
             dayId = appState.dayId s,
             sessionTitle = session.title (app_session st),
             rpe = draft.rpe d,
             score = scoreObj.score (app_scoreObj st),
             pct = scoreObj.pct (app_scoreObj st),
             recommendation = level rec,
             actualByItemId = draft.actualByItemId d,
             completed = True\<rparr>;
          logs' =
            (let prev = app.logs st
             in \<lparr>order = uid # order prev, byId = (byId prev)(uid \<mapsto> payload)\<rparr>);
          appState' =
            (if smartProgression s then
               (if level rec = ''advance'' then
                  (let idx = findIndex (\<lambda>d. day.id' d = appState.dayId s) DAYS
                   in if idx < int (length DAYS) - 1
                      then s\<lparr>appState.dayId := day.id' (DAYS ! nat (idx + 1))\<rparr>
                      else s\<lparr>appState.week := clamp (appState.week s + 1) 1 20,
                             appState.dayId := ''A''\<rparr>)
                else if level rec = ''hold'' then
                  (let idx = findIndex (\<lambda>d. day.id' d = appState.dayId s) DAYS
                   in if idx < int (length DAYS) - 1
                      then s\<lparr>appState.dayId := day.id' (DAYS ! nat (idx + 1))\<rparr>
                      else s\<lparr>appState.dayId := ''A''\<rparr>)
                else s)
             else s);
          draft' =
            \<lparr>draft.actualByItemId = Map.empty, rpe = 7, completed = False, date = today\<rparr>
      in \<lparr>appState = appState', customTargets = customTargets', logs = logs',
          draft = draft'\<rparr>)"

section \<open>Vocabulary of the specification\<close>

text \<open>
  The effective targets of the item at position \<open>idx\<close>, as both
  \<^const>\<open>scoreSession\<close> and \<^const>\<open>suggestReduction\<close> compute them: the entry of
  the targets map when there is one, the plan values of the item otherwise, and
  never less than 1.
\<close>

definition targetSets_of :: "item \<Rightarrow> nat \<Rightarrow> targets \<Rightarrow> int" where
  "targetSets_of it idx tgts =
     (let t = orDefault (tgts (itemKey_of it idx))
                \<lparr>target.sets = item.sets it, target.reps = item.reps it\<rparr>
      in max 1 (orDefault (orElse (target.sets t) (item.sets it)) 1))"

definition targetReps_of :: "item \<Rightarrow> nat \<Rightarrow> targets \<Rightarrow> int" where
  "targetReps_of it idx tgts =
     (let t = orDefault (tgts (itemKey_of it idx))
                \<lparr>target.sets = item.sets it, target.reps = item.reps it\<rparr>
      in max 1 (orDefault (orElse (target.reps t) (item.reps it)) 1))"

text \<open>
  What the draft records for the item: whether there is a record at all, and the
  recorded sets and repetitions (or duration), a missing value counting as 0.
\<close>

definition noData_of :: "item \<Rightarrow> nat \<Rightarrow> actuals \<Rightarrow> bool" where
  "noData_of it idx acts \<longleftrightarrow> acts (itemKey_of it idx) = None"

definition setsDone_of :: "item \<Rightarrow> nat \<Rightarrow> actuals \<Rightarrow> int" where
  "setsDone_of it idx acts =
     orDefault (Option.bind (acts (itemKey_of it idx)) actual.setsDone) 0"

definition repsDone_of :: "item \<Rightarrow> nat \<Rightarrow> actuals \<Rightarrow> int" where
  "repsDone_of it idx acts =
     orDefault (Option.bind (acts (itemKey_of it idx)) actual.repsDone) 0"

text \<open>The measured items of a session with their positions, in session order.\<close>

definition measured :: "item list \<Rightarrow> (nat \<times> item) list" where
  "measured its = filter (\<lambda>(idx, it). type it \<noteq> ''block'') (enumerate 0 its)"

text \<open>
  The scoring as the specification words it, in the arithmetic of doubles: the
  contribution of a measured item is the unweighted average of its two clamped
  ratios, the compliance is the arithmetic mean of the contributions (0 without
  measured items), and the score is the compliance less the effort penalty, clamped
  to the unit interval. Every quotient, half, sum and difference is rounded to the
  nearest double; the contributions are added one after the other in item order;
  the penalties are the doubles nearest to 0.20 and 0.10.
\<close>

definition spec_contribution :: "actuals \<Rightarrow> targets \<Rightarrow> nat \<times> item \<Rightarrow> rat" where
  "spec_contribution acts tgts = (\<lambda>(idx, it).
     let setsRatio = clamp (round_double (of_int (setsDone_of it idx acts)
                                           / of_int (targetSets_of it idx tgts))) 0 1;
         repsRatio = clamp (round_double (of_int (repsDone_of it idx acts)
                                           / of_int (targetReps_of it idx tgts))) 0 1
     in round_double (round_double (setsRatio / 2) + round_double (repsRatio / 2)))"

definition spec_sum :: "rat list \<Rightarrow> rat" where
  "spec_sum xs = foldl (\<lambda>acc x. round_double (acc + x)) 0 xs"

definition spec_compliancePct :: "item list \<Rightarrow> actuals \<Rightarrow> targets \<Rightarrow> rat" where
  "spec_compliancePct its acts tgts =
     (let contributions = map (spec_contribution acts tgts) (measured its)
      in if contributions = [] then 0
         else round_double (spec_sum contributions / of_nat (length contributions)))"

definition spec_penalty :: "rat \<Rightarrow> rat" where
  "spec_penalty effort =
     (if effort \<ge> 9 then round_double 0.20
      else if 8 \<le> effort \<and> effort < 9 then round_double 0.10 else 0)"

text \<open>
  The proposal for one item as the specification words it: nothing for a block
  item; otherwise the set count falls by one and the repetition or duration target
  by the step of the item kind, each where the item fell short and never below 1;
  and nothing when that leaves both targets as they are.
\<close>

definition spec_step :: "item \<Rightarrow> int" where
  "spec_step it =
     (if type it = ''time'' then (if item.unit it = Some ''min'' then 1 else 5) else 2)"

definition spec_newSets :: "item \<Rightarrow> nat \<Rightarrow> actuals \<Rightarrow> targets \<Rightarrow> int" where
  "spec_newSets it idx acts tgts =
     (if noData_of it idx acts
         \<or> setsDone_of it idx acts < targetSets_of it idx tgts
      then max 1 (targetSets_of it idx tgts - 1)
      else targetSets_of it idx tgts)"

definition spec_newReps :: "item \<Rightarrow> nat \<Rightarrow> actuals \<Rightarrow> targets \<Rightarrow> int" where
  "spec_newReps it idx acts tgts =
     (if noData_of it idx acts
         \<or> repsDone_of it idx acts < targetReps_of it idx tgts
      then max 1 (targetReps_of it idx tgts - spec_step it)
      else targetReps_of it idx tgts)"

definition spec_proposal :: "actuals \<Rightarrow> targets \<Rightarrow> nat \<times> item \<Rightarrow> suggestion option" where
  "spec_proposal acts tgts = (\<lambda>(idx, it).
     if type it = ''block'' then None
     else if spec_newSets it idx acts tgts
               = targetSets_of it idx tgts
           \<and> spec_newReps it idx acts tgts
               = targetReps_of it idx tgts
       then None
     else Some
       \<lparr>itemKey = itemKey_of it idx,
        exerciseId = item.exerciseId it,
        title = orDefault (map_of exerciseLibrary (item.exerciseId it)) (item.exerciseId it),
        from' = \<lparr>sets = targetSets_of it idx tgts,
                 reps = targetReps_of it idx tgts, unit = item.unit it\<rparr>,
        to' = \<lparr>sets = spec_newSets it idx acts tgts,
               reps = spec_newReps it idx acts tgts,
               unit = item.unit it\<rparr>\<rparr>)"

text \<open>
  An item under-performed when the draft has no record of it, or records fewer sets
  than the effective target, or fewer repetitions (less duration) than the
  effective target.
\<close>

definition underperformed :: "actuals \<Rightarrow> targets \<Rightarrow> nat \<times> item \<Rightarrow> bool" where
  "underperformed acts tgts = (\<lambda>(idx, it).
     noData_of it idx acts
     \<or> setsDone_of it idx acts < targetSets_of it idx tgts
     \<or> repsDone_of it idx acts < targetReps_of it idx tgts)"

text \<open>
  An item can be eased when it fell short on a target that is above 1: on its sets,
  or on its repetitions (duration).
\<close>

definition can_be_eased :: "actuals \<Rightarrow> targets \<Rightarrow> nat \<times> item \<Rightarrow> bool" where
  "can_be_eased acts tgts = (\<lambda>(idx, it).
     ((noData_of it idx acts
        \<or> setsDone_of it idx acts < targetSets_of it idx tgts)
       \<and> 1 < targetSets_of it idx tgts)
     \<or> ((noData_of it idx acts
          \<or> repsDone_of it idx acts < targetReps_of it idx tgts)
         \<and> 1 < targetReps_of it idx tgts))"

text \<open>The keys of a list of positioned items, in order.\<close>

definition keys_of :: "(nat \<times> item) list \<Rightarrow> string list" where
  "keys_of xs = map (\<lambda>(idx, it). itemKey_of it idx) xs"

section \<open>Example states\<close>

text \<open>
  A draft that records 20 sets of 999 for every measured item of session D, an
  earlier log entry, and an application state at a given week and day with no
  custom targets, one logged session and effort 7.
\<close>

definition example_actuals_D :: actuals where
  "example_actuals_D =
     [''tableRow:1'' \<mapsto> \<lparr>setsDone = Some 20, repsDone = Some 999, notes' = None\<rparr>,
      ''gluteBridge:2'' \<mapsto> \<lparr>setsDone = Some 20, repsDone = Some 999, notes' = None\<rparr>,
      ''deadBug:3'' \<mapsto> \<lparr>setsDone = Some 20, repsDone = Some 999, notes' = None\<rparr>,
      ''plank:4'' \<mapsto> \<lparr>setsDone = Some 20, repsDone = Some 999, notes' = None\<rparr>,
      ''marchInPlace:5'' \<mapsto> \<lparr>setsDone = Some 20, repsDone = Some 999, notes' = None\<rparr>]"

definition example_log :: sessionLog where
  "example_log =
     \<lparr>sessionLog.id' = ''old'', createdAt = ''2025-01-05T10:00:00.000Z'',
      date = ''2025-01-05'', week = 1, dayId = ''A'', sessionTitle = ''Empuje + Core'',
      rpe = 7, score = 1, pct = 1, recommendation = ''advance'',
      actualByItemId = Map.empty, completed = True\<rparr>"

definition example_app :: "int \<Rightarrow> string \<Rightarrow> bool \<Rightarrow> actuals \<Rightarrow> app" where
  "example_app w d smart acts =
     \<lparr>appState = \<lparr>appState.week = w, dayId = d, smartProgression = smart\<rparr>,
      customTargets = Map.empty,
      logs = \<lparr>order = [''old''], byId = [''old'' \<mapsto> example_log]\<rparr>,
      draft = \<lparr>draft.actualByItemId = acts, rpe = 7, completed = False,
               date = ''2025-01-06''\<rparr>\<rparr>"

section \<open>Decimal rendering and item keys\<close>

lemma of_char_digit_char: "d < 10 \<Longrightarrow> of_char (digit_char d) = 48 + d"
  by (simp add: digit_char_def)

lemma digit_char_inj:
  assumes "d < 10" and "e < 10" and "digit_char d = digit_char e"
  shows "d = e"
proof -
  have "(of_char (digit_char d) :: nat) = of_char (digit_char e)"
    using assms(3) by simp
  with assms(1,2) show ?thesis by (simp add: of_char_digit_char)
qed

lemma digit_char_not_colon: "d < 10 \<Longrightarrow> digit_char d \<noteq> CHR '':''"
proof
  assume "d < 10" and "digit_char d = CHR '':''"
  then have "(of_char (digit_char d) :: nat) = of_char CHR '':''" by simp
  with \<open>d < 10\<close> show False by (simp add: of_char_digit_char)
qed

lemma string_of_nat_not_Nil: "string_of_nat n \<noteq> []"
  by (subst string_of_nat.simps) simp

lemma colon_notin_string_of_nat: "CHR '':'' \<notin> set (string_of_nat n)"
proof (induction n rule: string_of_nat.induct)
  case (1 n)
  show ?case
  proof (cases "n < 10")
    case True
    then show ?thesis
      using digit_char_not_colon [of n] by (subst string_of_nat.simps) auto
  next
    case False
    then show ?thesis
      using 1 digit_char_not_colon [of "n mod 10"]
      by (subst string_of_nat.simps) auto
  qed
qed

lemma string_of_nat_inj: "string_of_nat m = string_of_nat n \<Longrightarrow> m = n"
proof (induction m arbitrary: n rule: string_of_nat.induct)
  case (1 m)
  note eq = \<open>string_of_nat m = string_of_nat n\<close>
  show ?case
  proof (cases "m < 10")
    case m: True
    show ?thesis
    proof (cases "n < 10")
      case True
      with m eq show ?thesis
        by (simp add: string_of_nat.simps [of m] string_of_nat.simps [of n] digit_char_inj)
    next
      case False
      with m eq string_of_nat_not_Nil [of "n div 10"] show ?thesis
        by (simp add: string_of_nat.simps [of m] string_of_nat.simps [of n])
    qed
  next
    case m: False
    show ?thesis
    proof (cases "n < 10")
      case True
      with m eq string_of_nat_not_Nil [of "m div 10"] show ?thesis
        by (simp add: string_of_nat.simps [of m] string_of_nat.simps [of n])
    next
      case False
      with m eq have a: "string_of_nat (m div 10) = string_of_nat (n div 10)"
        and b: "digit_char (m mod 10) = digit_char (n mod 10)"
        by (simp_all add: string_of_nat.simps [of m] string_of_nat.simps [of n])
      from a m have "m div 10 = n div 10" by (rule "1.IH" [rotated])
      moreover from b have "m mod 10 = n mod 10" by (simp add: digit_char_inj)
      ultimately show ?thesis by (metis div_mult_mod_eq)
    qed
  qed
qed

lemma split_at_last_colon:
  assumes "a @ CHR '':'' # s = b @ CHR '':'' # s'"
    and "CHR '':'' \<notin> set s" and "CHR '':'' \<notin> set s'"
  shows "a = b \<and> s = s'"
  using assms
proof (induction a arbitrary: b)
  case Nil
  then show ?case by (cases b) auto
next
  case (Cons x a)
  then show ?case by (cases b) auto
qed

section \<open>The loops of scoring and reduction\<close>

lemma forEach_from_collect:
  assumes "\<And>x i out. f x i out = (case g (i, x) of None \<Rightarrow> out | Some p \<Rightarrow> out @ [p])"
  shows "forEach_from idx xs f out = out @ List.map_filter g (enumerate idx xs)"
proof (induction xs arbitrary: idx out)
  case Nil
  then show ?case by (simp add: List.map_filter_simps)
next
  case (Cons x xs)
  have "forEach_from idx (x # xs) f out = forEach_from (Suc idx) xs f (f x idx out)"
    by simp
  also have "\<dots> = f x idx out @ List.map_filter g (enumerate (Suc idx) xs)"
    by (rule Cons.IH)
  also have "\<dots> = out @ List.map_filter g (enumerate idx (x # xs))"
    by (cases "g (idx, x)") (simp_all add: assms List.map_filter_simps)
  finally show ?case .
qed

lemma suggestReduction_callback:
  "(if type it = ''block'' then out
       else
         let itemKey = itemKey_of it idx;
             ex = map_of exerciseLibrary (item.exerciseId it);
             a = acts itemKey;
             t = orDefault (tgts itemKey)
                   \<lparr>target.sets = item.sets it, target.reps = item.reps it\<rparr>;
             targetSets = max 1 (orDefault (orElse (target.sets t) (item.sets it)) 1);
             targetReps = max 1 (orDefault (orElse (target.reps t) (item.reps it)) 1);
             setsDone = orDefault (Option.bind a actual.setsDone) 0;
             repsDone = orDefault (Option.bind a actual.repsDone) 0;
             noData = (a = None);
             newSets = targetSets;
             newReps = targetReps;
             newSets = (if noData \<or> setsDone < targetSets then max 1 (targetSets - 1)
                        else newSets);
             newReps = (if noData \<or> repsDone < targetReps
                        then (if type it = ''time''
                              then (let delta = (if item.unit it = Some ''min'' then 1 else 5)
                                    in max 1 (targetReps - delta))
                              else max 1 (targetReps - 2))
                        else newReps)
         in if newSets = targetSets \<and> newReps = targetReps then out
            else out @
              [\<lparr>suggestion.itemKey = itemKey,
                exerciseId = item.exerciseId it,
                title = orDefault ex (item.exerciseId it),
                from' = \<lparr>quantity.sets = targetSets, reps = targetReps, unit = item.unit it\<rparr>,
                to' = \<lparr>quantity.sets = newSets, reps = newReps, unit = item.unit it\<rparr>\<rparr>])
   = (case spec_proposal acts tgts (idx, it) of None \<Rightarrow> out | Some p \<Rightarrow> out @ [p])"
proof -
  have step: "(if type it = ''time''
         then (let delta = (if item.unit it = Some ''min'' then 1 else 5)
               in max 1 (targetReps_of it idx tgts - delta))
         else max 1 (targetReps_of it idx tgts - 2))
        = max 1 (targetReps_of it idx tgts - spec_step it)"
    by (simp add: spec_step_def Let_def)
  show ?thesis
    unfolding Let_def
    unfolding targetSets_of_def [unfolded Let_def, symmetric]
      targetReps_of_def [unfolded Let_def, symmetric]
      setsDone_of_def [symmetric] repsDone_of_def [symmetric] noData_of_def [symmetric]
    unfolding step [unfolded Let_def]
    unfolding spec_newSets_def [symmetric] spec_newReps_def [symmetric]
    by (simp add: spec_proposal_def)
qed


lemma suggestReduction_collect:
  "suggestReduction its acts tgts
     = List.map_filter (spec_proposal acts tgts) (enumerate 0 its)"
proof -
  have "suggestReduction its acts tgts
          = [] @ List.map_filter (spec_proposal acts tgts) (enumerate 0 its)"
    unfolding suggestReduction_def forEach_def
    by (rule forEach_from_collect) (rule suggestReduction_callback)
  then show ?thesis by simp
qed

lemma round_half_even_ge:
  assumes "of_int m \<le> y"
  shows "m \<le> round_half_even y"
proof -
  from assms have "m \<le> \<lfloor>y\<rfloor>" by (simp add: le_floor_iff)
  then show ?thesis by (simp add: round_half_even_def Let_def)
qed

lemma round_half_even_le:
  assumes "y \<le> of_int m"
  shows "round_half_even y \<le> m"
proof (cases "y = of_int m")
  case True
  then show ?thesis by (simp add: round_half_even_def Let_def)
next
  case False
  with assms have "y < of_int m" by simp
  then have "\<lfloor>y\<rfloor> < m" by (simp add: floor_less_iff)
  then show ?thesis by (simp add: round_half_even_def Let_def)
qed

lemma round_double_0 [simp]: "round_double 0 = 0"
  by (simp add: round_double_def)

lemma round_double_nonneg:
  assumes "0 \<le> x"
  shows "0 \<le> round_double x"
proof (cases "x = 0")
  case True
  then show ?thesis by simp
next
  case False
  define q :: rat where "q = power_int 2 (max (floor_log2 \<bar>x\<bar>) (- 1022) - 52)"
  have q: "0 < q" by (simp add: q_def)
  with assms have "of_int 0 \<le> x / q" by simp
  then have "0 \<le> round_half_even (x / q)" by (rule round_half_even_ge)
  with q False show ?thesis by (simp add: round_double_def Let_def q_def [symmetric])
qed

lemma round_double_nonpos:
  assumes "x \<le> 0"
  shows "round_double x \<le> 0"
proof (cases "x = 0")
  case True
  then show ?thesis by simp
next
  case False
  define q :: rat where "q = power_int 2 (max (floor_log2 \<bar>x\<bar>) (- 1022) - 52)"
  have q: "0 < q" by (simp add: q_def)
  with assms have "x / q \<le> of_int 0" by (simp add: divide_le_0_iff)
  then have "round_half_even (x / q) \<le> 0" by (rule round_half_even_le)
  with q False show ?thesis
    by (simp add: round_double_def Let_def q_def [symmetric] mult_le_0_iff)
qed

lemma round_double_ge_1:
  assumes "1 \<le> x"
  shows "1 \<le> round_double x"
proof -
  define n where "n = \<lfloor>x\<rfloor>"
  define k where "k = nat (bitlen n - 1)"
  from assms have n: "0 < n" by (simp add: n_def)
  then have b: "1 \<le> bitlen n" by (auto simp: bitlen_alt_def)
  have e: "floor_log2 \<bar>x\<bar> = int k"
    using assms b by (simp add: floor_log2_def n_def k_def)
  have "2 ^ k \<le> n" using bitlen_bounds [OF n] by (simp add: k_def)
  then have "(of_int (2 ^ k) :: rat) \<le> of_int n" by (simp only: of_int_le_iff)
  also have "\<dots> \<le> x" by (simp add: n_def)
  finally have p: "(2 ^ k :: rat) \<le> x" by simp
  define q :: rat where "q = power_int 2 (int k - 52)"
  have q: "q = 2 ^ k / 2 ^ 52"
    by (simp add: q_def power_int_diff)
  have q0: "0 < q" by (simp add: q_def)
  from p have "(of_int (2 ^ 52) :: rat) \<le> x / q"
    by (simp add: q pos_le_divide_eq)
  then have r: "2 ^ 52 \<le> round_half_even (x / q)" by (rule round_half_even_ge)
  have "(1 :: rat) \<le> 2 ^ k" by simp
  also have "\<dots> = of_int (2 ^ 52) * q" by (simp add: q)
  also have "\<dots> \<le> of_int (round_half_even (x / q)) * q"
    using r q0 by (intro mult_right_mono) (simp_all only: of_int_le_iff less_imp_le)
  finally have "1 \<le> of_int (round_half_even (x / q)) * q" .
  moreover from assms have "x \<noteq> 0" by auto
  ultimately show ?thesis
    by (simp add: round_double_def Let_def e q_def max_def)
qed

lemma clamp_ge_1: "1 \<le> x \<Longrightarrow> clamp x 0 1 = (1::rat)"
  by (simp add: clamp_def max_def min_def)

lemma forEach_from_tally:
  assumes "\<And>x i n acc. f x i (n, acc) =
             (if m x then (n + 1, g acc (c (i, x))) else (n, acc))"
  shows "forEach_from idx xs f (n, acc) =
           (n + int (length (filter (\<lambda>(i, x). m x) (enumerate idx xs))),
            foldl g acc (map c (filter (\<lambda>(i, x). m x) (enumerate idx xs))))"
proof (induction xs arbitrary: idx n acc)
  case Nil
  then show ?case by simp
next
  case (Cons x xs)
  have "forEach_from idx (x # xs) f (n, acc) = forEach_from (Suc idx) xs f (f x idx (n, acc))"
    by simp
  also have "\<dots> = forEach_from (Suc idx) xs f
                      (if m x then (n + 1, g acc (c (idx, x))) else (n, acc))"
    by (simp only: assms)
  also have "\<dots> = (n + int (length (filter (\<lambda>(i, x). m x) (enumerate idx (x # xs)))),
            foldl g acc (map c (filter (\<lambda>(i, x). m x) (enumerate idx (x # xs)))))"
    by (simp add: Cons.IH)
  finally show ?case .
qed

lemma clamp_ratio_nonneg:
  fixes a b :: int
  assumes "0 < b"
  shows "clamp (round_double (of_int (max 0 a) / of_int b)) 0 (1::rat)
           = clamp (round_double (of_int a / of_int b)) 0 1"
proof (cases "0 \<le> a")
  case True
  then show ?thesis by (simp add: max_def)
next
  case False
  with assms have "(of_int a :: rat) / of_int b \<le> 0"
    by (simp add: divide_nonpos_pos)
  then have "round_double (of_int a / of_int b) \<le> 0"
    by (rule round_double_nonpos)
  with False show ?thesis by (simp add: clamp_def max_def min_def)
qed

lemma targetSets_of_pos: "0 < targetSets_of it idx tgts"
  by (simp add: targetSets_of_def Let_def)

lemma targetReps_of_pos: "0 < targetReps_of it idx tgts"
  by (simp add: targetReps_of_def Let_def)

lemma scoreSession_callback:
  "(\<lambda>(total, sum).
             if type it = ''block'' then (total, sum)
             else
               let itemKey = itemKey_of it idx;
                   a = acts itemKey;
                   t = orDefault (tgts itemKey)
                         \<lparr>target.sets = item.sets it, target.reps = item.reps it\<rparr>;
                   targetSets = max 1 (orDefault (orElse (target.sets t) (item.sets it)) 1);
                   targetReps = max 1 (orDefault (orElse (target.reps t) (item.reps it)) 1);
                   setsDone = max 0 (orDefault (Option.bind a actual.setsDone) 0);
                   repsDone = max 0 (orDefault (Option.bind a actual.repsDone) 0);
                   setsRatio =
                     clamp (round_double (of_int setsDone / of_int targetSets)) 0 1;
                   repsRatio =
                     clamp (round_double (of_int repsDone / of_int targetReps)) 0 1;
                   itemScore =
                     round_double (round_double (0.5 * setsRatio)
                                   + round_double (0.5 * repsRatio))
               in (total + 1, round_double (sum + itemScore))) (n, acc)
   = (if type it \<noteq> ''block''
      then (n + 1, (\<lambda>acc x. round_double (acc + x)) acc (spec_contribution acts tgts (idx, it)))
      else (n, acc))"
  unfolding Let_def prod.case
  unfolding targetSets_of_def [unfolded Let_def, symmetric]
    targetReps_of_def [unfolded Let_def, symmetric]
    setsDone_of_def [symmetric] repsDone_of_def [symmetric]
  by (simp add: spec_contribution_def clamp_ratio_nonneg targetSets_of_pos targetReps_of_pos
        Let_def)

lemma scoreSession_tally:
  "forEach its (\<lambda>it idx (total, sum).
             if type it = ''block'' then (total, sum)
             else
               let itemKey = itemKey_of it idx;
                   a = acts itemKey;
                   t = orDefault (tgts itemKey)
                         \<lparr>target.sets = item.sets it, target.reps = item.reps it\<rparr>;
                   targetSets = max 1 (orDefault (orElse (target.sets t) (item.sets it)) 1);
                   targetReps = max 1 (orDefault (orElse (target.reps t) (item.reps it)) 1);
                   setsDone = max 0 (orDefault (Option.bind a actual.setsDone) 0);
                   repsDone = max 0 (orDefault (Option.bind a actual.repsDone) 0);
                   setsRatio =
                     clamp (round_double (of_int setsDone / of_int targetSets)) 0 1;
                   repsRatio =
                     clamp (round_double (of_int repsDone / of_int targetReps)) 0 1;
                   itemScore =
                     round_double (round_double (0.5 * setsRatio)
                                   + round_double (0.5 * repsRatio))
               in (total + 1, round_double (sum + itemScore)))
             (0 :: int, 0 :: rat)
   = (int (length (measured its)),
      spec_sum (map (spec_contribution acts tgts) (measured its)))"
proof -
  have "forEach_from 0 its (\<lambda>it idx (total, sum).
             if type it = ''block'' then (total, sum)
             else
               let itemKey = itemKey_of it idx;
                   a = acts itemKey;
                   t = orDefault (tgts itemKey)
                         \<lparr>target.sets = item.sets it, target.reps = item.reps it\<rparr>;
                   targetSets = max 1 (orDefault (orElse (target.sets t) (item.sets it)) 1);
                   targetReps = max 1 (orDefault (orElse (target.reps t) (item.reps it)) 1);
                   setsDone = max 0 (orDefault (Option.bind a actual.setsDone) 0);
                   repsDone = max 0 (orDefault (Option.bind a actual.repsDone) 0);
                   setsRatio =
                     clamp (round_double (of_int setsDone / of_int targetSets)) 0 1;
                   repsRatio =
                     clamp (round_double (of_int repsDone / of_int targetReps)) 0 1;
                   itemScore =
                     round_double (round_double (0.5 * setsRatio)
                                   + round_double (0.5 * repsRatio))
               in (total + 1, round_double (sum + itemScore)))
             (0 :: int, 0 :: rat)
     = (0 + int (length (filter (\<lambda>(i, x). type x \<noteq> ''block'') (enumerate 0 its))),
        foldl (\<lambda>acc x. round_double (acc + x)) 0
          (map (spec_contribution acts tgts)
             (filter (\<lambda>(i, x). type x \<noteq> ''block'') (enumerate 0 its))))"
    by (rule forEach_from_tally) (rule scoreSession_callback)
  then show ?thesis by (simp add: forEach_def measured_def spec_sum_def)
qed

lemma scoreSession_spec:
  "scoreSession its acts tgts effort =
     \<lparr>scoreObj.pct = spec_compliancePct its acts tgts,
      score = clamp (round_double (spec_compliancePct its acts tgts - spec_penalty effort))
                0 1\<rparr>"
  unfolding scoreSession_def scoreSession_tally
  by (simp add: spec_compliancePct_def spec_penalty_def Let_def)

section \<open>The plan generator\<close>

lemma floor_half: "\<lfloor>(of_int (w - 1) :: rat) / 2\<rfloor> = (w - 1) div 2"
proof -
  have "\<lfloor>(of_int (w - 1) :: rat) / of_int 2\<rfloor> = (w - 1) div 2"
    by (rule floor_divide_of_int_eq)
  then show ?thesis by simp
qed

lemma sets_buildWeekPlan: "weekPlan.sets (buildWeekPlan w) = setsForWeek w"
  by (simp add: buildWeekPlan_def Let_def)

lemma repsForWeek_div:
  "repsForWeek w b =
     (if isDeloadWeek w then max 4 (b + (w - 1) div 2 - 2) else b + (w - 1) div 2)"
  unfolding repsForWeek_def floor_half by (simp add: Let_def)

lemma secondsForWeek_div:
  "secondsForWeek w b =
     (if isDeloadWeek w then max 10 (b + (w - 1) div 2 * 5 - 10)
      else b + (w - 1) div 2 * 5)"
  unfolding secondsForWeek_def floor_half by (simp add: Let_def)

text \<open>
  C7. For every week from 1 to 20 the base set count of the generated week plan is
  2 in weeks 1 to 4, 3 in weeks 5 to 7 and 9 to 12, 4 in weeks 13 to 15 and 17 to
  20; in the deload weeks 8 and 16 it is one less than the value of the range the
  week lies in, but at least 2, which is 2 for week 8 and 3 for week 16.
\<close>

theorem buildWeekPlan_sets_by_week:
  assumes "1 \<le> w" and "w \<le> 20"
  shows "(w \<le> 4 \<longrightarrow> weekPlan.sets (buildWeekPlan w) = 2)
       \<and> ((5 \<le> w \<and> w \<le> 7) \<or> (9 \<le> w \<and> w \<le> 12) \<longrightarrow> weekPlan.sets (buildWeekPlan w) = 3)
       \<and> ((13 \<le> w \<and> w \<le> 15) \<or> (17 \<le> w \<and> w \<le> 20) \<longrightarrow> weekPlan.sets (buildWeekPlan w) = 4)
       \<and> (w = 8 \<or> w = 16 \<longrightarrow>
            weekPlan.sets (buildWeekPlan w) = max 2 ((if w \<le> 12 then 3 else 4) - 1))
       \<and> weekPlan.sets (buildWeekPlan 8) = 2
       \<and> weekPlan.sets (buildWeekPlan 16) = 3"
  using assms unfolding sets_buildWeekPlan
  by (auto simp: setsForWeek_def isDeloadWeek_def)

theorem buildWeekPlan_sets_by_week_witness:
  "(1::int) \<le> 6 \<and> (6::int) \<le> 20 \<and> weekPlan.sets (buildWeekPlan 6) = 3
   \<and> (1::int) \<le> 16 \<and> (16::int) \<le> 20 \<and> weekPlan.sets (buildWeekPlan 16) = 3
   \<and> weekPlan.sets (buildWeekPlan 3) = 2 \<and> weekPlan.sets (buildWeekPlan 19) = 4"
  using buildWeekPlan_sets_by_week [of 6] buildWeekPlan_sets_by_week [of 16]
    buildWeekPlan_sets_by_week [of 3] buildWeekPlan_sets_by_week [of 19]
  by simp

text \<open>
  C8. For every week and every base repetition value \<open>b\<close> the repetition target is
  \<open>b + floor((w - 1) / 2)\<close>; in the deload weeks 8 and 16 two repetitions are taken
  off that sum and the result is at least 4. In particular the targets for base 6
  are 6 in week 1, 7 in week 8 and 15 in week 20.
\<close>

theorem repsForWeek_formula:
  "repsForWeek w b =
     (if w = 8 \<or> w = 16 then max 4 (b + (w - 1) div 2 - 2) else b + (w - 1) div 2)
   \<and> repsForWeek 1 6 = 6 \<and> repsForWeek 8 6 = 7 \<and> repsForWeek 20 6 = 15"
  by (simp add: repsForWeek_div isDeloadWeek_def)

text \<open>
  C9. For every week and every base duration \<open>b\<close> in seconds the duration target
  is \<open>b + floor((w - 1) / 2) * 5\<close>, less 10 and at least 10 in the deload weeks 8
  and 16. The march item, which sessions B and D carry at position 5 and which is
  the only item of that exercise, is measured in minutes and targets
  \<open>clamp (8 + floor((w - 1) / 2)) 8 20\<close>, less 4 and at least 6 in the deload weeks.
\<close>

theorem secondsForWeek_and_march:
  "secondsForWeek w b =
     (if w = 8 \<or> w = 16 then max 10 (b + (w - 1) div 2 * 5 - 10)
      else b + (w - 1) div 2 * 5)
   \<and> (let marchMinutes =
             (if w = 8 \<or> w = 16 then max 6 (clamp (8 + (w - 1) div 2) 8 20 - 4)
              else clamp (8 + (w - 1) div 2) 8 20);
           march = measured_item ''time'' ''marchInPlace'' 1 marchMinutes ''min'' em_dash
       in items (sessions (buildWeekPlan w) ! 1) ! 5 = march
        \<and> items (sessions (buildWeekPlan w) ! 3) ! 5 = march
        \<and> (\<forall>ses \<in> set (sessions (buildWeekPlan w)). \<forall>it \<in> set (items ses).
              item.exerciseId it = ''marchInPlace'' \<longrightarrow> it = march))"
proof -
  have "secondsForWeek w b =
     (if w = 8 \<or> w = 16 then max 10 (b + (w - 1) div 2 * 5 - 10)
      else b + (w - 1) div 2 * 5)"
    by (simp add: secondsForWeek_div isDeloadWeek_def)
  moreover have "(let marchMinutes =
             (if w = 8 \<or> w = 16 then max 6 (clamp (8 + (w - 1) div 2) 8 20 - 4)
              else clamp (8 + (w - 1) div 2) 8 20);
           march = measured_item ''time'' ''marchInPlace'' 1 marchMinutes ''min'' em_dash
       in items (sessions (buildWeekPlan w) ! 1) ! 5 = march
        \<and> items (sessions (buildWeekPlan w) ! 3) ! 5 = march
        \<and> (\<forall>ses \<in> set (sessions (buildWeekPlan w)). \<forall>it \<in> set (items ses).
              item.exerciseId it = ''marchInPlace'' \<longrightarrow> it = march))"
    unfolding buildWeekPlan_def floor_half Let_def isDeloadWeek_def
    by (simp add: measured_item_def block_item_def)
  ultimately show ?thesis by (rule conjI)
qed

theorem secondsForWeek_and_march_witness:
  "secondsForWeek 8 20 = 25
   \<and> sessions (buildWeekPlan 8) ! 1 \<in> set (sessions (buildWeekPlan 8))
   \<and> items (sessions (buildWeekPlan 8) ! 1) ! 5 \<in> set (items (sessions (buildWeekPlan 8) ! 1))
   \<and> item.exerciseId (items (sessions (buildWeekPlan 8) ! 1) ! 5) = ''marchInPlace''
   \<and> items (sessions (buildWeekPlan 8) ! 1) ! 5
        = measured_item ''time'' ''marchInPlace'' 1 7 ''min'' em_dash"
proof -
  note t = secondsForWeek_and_march [of 8 20, unfolded Let_def]
  from t [THEN conjunct1] have a: "secondsForWeek 8 20 = 25"
    by simp
  from t [THEN conjunct2, THEN conjunct1]
  have b: "items (sessions (buildWeekPlan 8) ! 1) ! 5
             = measured_item ''time'' ''marchInPlace'' 1 7 ''min'' em_dash"
    by (simp add: clamp_def)
  have c: "sessions (buildWeekPlan 8) ! 1 \<in> set (sessions (buildWeekPlan 8))"
    by (rule nth_mem) (simp add: buildWeekPlan_def Let_def)
  have d: "items (sessions (buildWeekPlan 8) ! 1) ! 5
             \<in> set (items (sessions (buildWeekPlan 8) ! 1))"
    by (rule nth_mem) (simp add: buildWeekPlan_def Let_def)
  have e: "item.exerciseId (items (sessions (buildWeekPlan 8) ! 1) ! 5) = ''marchInPlace''"
    unfolding b by (simp add: measured_item_def)
  from a c d e b show ?thesis by (intro conjI)
qed

section \<open>Scoring\<close>

lemma string_of_nat_0: "string_of_nat 0 = ''0''"
  by code_simp

lemma itemKey_of_measured_item_0:
  "itemKey_of (measured_item ty ex s r u rst) 0 = ex @ '':0''"
  by (simp add: itemKey_of_def measured_item_def string_of_nat_0)

lemma scoreSession_single:
  assumes "ty \<noteq> ''block''"
  shows "scoreSession [measured_item ty ex s r u rst]
           [ex @ '':0'' \<mapsto> \<lparr>setsDone = Some sd, repsDone = Some rd, notes' = nt\<rparr>]
           Map.empty effort
         = (let setsRatio = clamp (round_double (of_int (max 0 sd) / of_int (max 1 s))) 0 1;
                repsRatio = clamp (round_double (of_int (max 0 rd) / of_int (max 1 r))) 0 1;
                itemScore = round_double (round_double (0.5 * setsRatio)
                                          + round_double (0.5 * repsRatio));
                pct = round_double (round_double (0 + itemScore) / 1);
                rpePenalty = (if effort \<ge> 9 then round_double 0.2
                              else if effort \<ge> 8 then round_double 0.1 else 0)
            in \<lparr>scoreObj.pct = pct, score = clamp (round_double (pct - rpePenalty)) 0 1\<rparr>)"
  using assms
  by (simp add: scoreSession_def forEach_def itemKey_of_measured_item_0 Let_def)
     (simp add: measured_item_def orDefault_def orElse_def)

text \<open>
  C1, as stated, fails: the program computes in doubles. One measured item with
  target 3 sets of 10 and 1 set of 5 recorded has the compliance
  0.41666666666666663, which is not 5/12. One measured item with target 5 sets of 10
  and 3 sets of 7 recorded has, at effort 8, the score 0.5499999999999999, which is
  not \<open>clamp (13/20 - 1/10) 0 1 = 11/20\<close>, and is recommended reduce, not hold.
\<close>

theorem scoreSession_exact_counterexample:
  "scoreObj.pct
     (scoreSession [measured_item ''reps'' ''inclinePushUp'' 3 10 ''reps'' ''60s'']
        [''inclinePushUp:0'' \<mapsto> \<lparr>setsDone = Some 1, repsDone = Some 5, notes' = None\<rparr>]
        Map.empty 7)
     = 3752999689475413 / 9007199254740992
   \<and> scoreObj.pct
     (scoreSession [measured_item ''reps'' ''inclinePushUp'' 3 10 ''reps'' ''60s'']
        [''inclinePushUp:0'' \<mapsto> \<lparr>setsDone = Some 1, repsDone = Some 5, notes' = None\<rparr>]
        Map.empty 7)
     \<noteq> 5 / 12
   \<and> scoreObj.score
     (scoreSession [measured_item ''reps'' ''inclinePushUp'' 5 10 ''reps'' ''60s'']
        [''inclinePushUp:0'' \<mapsto> \<lparr>setsDone = Some 3, repsDone = Some 7, notes' = None\<rparr>]
        Map.empty 8)
     = 4953959590107545 / 9007199254740992
   \<and> scoreObj.score
     (scoreSession [measured_item ''reps'' ''inclinePushUp'' 5 10 ''reps'' ''60s'']
        [''inclinePushUp:0'' \<mapsto> \<lparr>setsDone = Some 3, repsDone = Some 7, notes' = None\<rparr>]
        Map.empty 8)
     \<noteq> clamp (13 / 20 - 1 / 10) 0 1
   \<and> level (recommendationFromScore
        (scoreSession [measured_item ''reps'' ''inclinePushUp'' 5 10 ''reps'' ''60s'']
           [''inclinePushUp:0'' \<mapsto> \<lparr>setsDone = Some 3, repsDone = Some 7, notes' = None\<rparr>]
           Map.empty 8))
     = ''reduce''"
proof -
  have k: "''inclinePushUp:0'' = ''inclinePushUp'' @ '':0''" by simp
  have a: "scoreSession [measured_item ''reps'' ''inclinePushUp'' 3 10 ''reps'' ''60s'']
        [''inclinePushUp:0'' \<mapsto> \<lparr>setsDone = Some 1, repsDone = Some 5, notes' = None\<rparr>]
        Map.empty 7
      = \<lparr>scoreObj.pct = 3752999689475413 / 9007199254740992,
         score = 3752999689475413 / 9007199254740992\<rparr>"
    unfolding k by (subst scoreSession_single, simp) code_simp
  have b: "scoreSession [measured_item ''reps'' ''inclinePushUp'' 5 10 ''reps'' ''60s'']
        [''inclinePushUp:0'' \<mapsto> \<lparr>setsDone = Some 3, repsDone = Some 7, notes' = None\<rparr>]
        Map.empty 8
      = \<lparr>scoreObj.pct = 1463669878895411 / 2251799813685248,
         score = 4953959590107545 / 9007199254740992\<rparr>"
    unfolding k by (subst scoreSession_single, simp) code_simp
  show ?thesis
    unfolding a b by (simp add: recommendationFromScore_def clamp_def)
qed

text \<open>
  C1, amended. For every item list, actuals map, targets map and effort level,
  \<^const>\<open>scoreSession\<close> ignores block items; the contribution of a measured item
  is the unweighted average of \<open>clamp (actualSets / targetSets) 0 1\<close> and
  \<open>clamp (actualReps / targetReps) 0 1\<close>, a missing actual counting as 0 and the
  targets being the effective ones; the compliance is the arithmetic mean of the
  contributions of the measured items, 0 when there are none; the penalty is 0.20
  from effort 9, 0.10 from effort 8 and 0 below; the score is the compliance less
  the penalty, clamped to the unit interval; all of it in the arithmetic of doubles,
  where every quotient, half, sum and difference is rounded to the nearest double,
  the contributions are added in item order and 0.20 and 0.10 are the nearest
  doubles. One measured item with target 3 sets of 10 scores 1 at effort 7 when
  3 sets of 10 are recorded, and has compliance 0.41666666666666663, which is
  within \<open>2^-54\<close> of 5/12, when 1 set of 5 is recorded.
\<close>

theorem scoreSession_follows_spec_in_doubles:
  "scoreSession its acts tgts effort =
     \<lparr>scoreObj.pct = spec_compliancePct its acts tgts,
      score = clamp (round_double (spec_compliancePct its acts tgts - spec_penalty effort))
                0 1\<rparr>
   \<and> scoreObj.score (scoreSession [measured_item ''reps'' ex 3 10 u r]
        [ex @ '':0'' \<mapsto> \<lparr>setsDone = Some 3, repsDone = Some 10, notes' = nt\<rparr>]
        Map.empty 7) = 1
   \<and> scoreObj.pct (scoreSession [measured_item ''reps'' ex 3 10 u r]
        [ex @ '':0'' \<mapsto> \<lparr>setsDone = Some 1, repsDone = Some 5, notes' = nt\<rparr>]
        Map.empty effort) = 3752999689475413 / 9007199254740992
   \<and> \<bar>3752999689475413 / 9007199254740992 - 5 / 12\<bar> \<le> (1 / 2 ^ 54 :: rat)"
proof (intro conjI)
  show "scoreSession its acts tgts effort =
     \<lparr>scoreObj.pct = spec_compliancePct its acts tgts,
      score = clamp (round_double (spec_compliancePct its acts tgts - spec_penalty effort))
                0 1\<rparr>"
    by (rule scoreSession_spec)
  have "(let setsRatio = clamp (round_double (of_int (max 0 3) / of_int (max 1 3))) 0 1;
             repsRatio = clamp (round_double (of_int (max 0 10) / of_int (max 1 10))) 0 1;
             itemScore = round_double (round_double (0.5 * setsRatio)
                                       + round_double (0.5 * repsRatio));
             pct = round_double (round_double (0 + itemScore) / 1);
             rpePenalty = (if (7::rat) \<ge> 9 then round_double 0.2
                           else if (7::rat) \<ge> 8 then round_double 0.1 else 0)
         in clamp (round_double (pct - rpePenalty)) 0 1) = (1::rat)"
    by code_simp
  then show "scoreObj.score (scoreSession [measured_item ''reps'' ex 3 10 u r]
        [ex @ '':0'' \<mapsto> \<lparr>setsDone = Some 3, repsDone = Some 10, notes' = nt\<rparr>]
        Map.empty 7) = 1"
    by (subst scoreSession_single) (simp_all add: Let_def)
  have "(let setsRatio = clamp (round_double (of_int (max 0 1) / of_int (max 1 3))) 0 1;
             repsRatio = clamp (round_double (of_int (max 0 5) / of_int (max 1 10))) 0 1;
             itemScore = round_double (round_double (0.5 * setsRatio)
                                       + round_double (0.5 * repsRatio))
         in round_double (round_double (0 + itemScore) / 1))
        = (3752999689475413 / 9007199254740992 :: rat)"
    by code_simp
  then show "scoreObj.pct (scoreSession [measured_item ''reps'' ex 3 10 u r]
        [ex @ '':0'' \<mapsto> \<lparr>setsDone = Some 1, repsDone = Some 5, notes' = nt\<rparr>]
        Map.empty effort) = 3752999689475413 / 9007199254740992"
    by (subst scoreSession_single) (simp_all add: Let_def)
  show "\<bar>3752999689475413 / 9007199254740992 - 5 / 12\<bar> \<le> (1 / 2 ^ 54 :: rat)"
    by simp
qed

text \<open>
  C2. \<^const>\<open>recommendationFromScore\<close> answers advance for a score of at least
  0.80, hold for a score of at least 0.55 and below 0.80, and reduce below 0.55; so
  0.80 gives advance, 0.799999 and 0.55 give hold, and 0.549999 gives reduce.
\<close>

theorem recommendationFromScore_thresholds:
  "(scoreObj.score so \<ge> 0.80 \<longrightarrow> level (recommendationFromScore so) = ''advance'')
   \<and> (0.55 \<le> scoreObj.score so \<and> scoreObj.score so < 0.80
        \<longrightarrow> level (recommendationFromScore so) = ''hold'')
   \<and> (scoreObj.score so < 0.55 \<longrightarrow> level (recommendationFromScore so) = ''reduce'')
   \<and> level (recommendationFromScore \<lparr>scoreObj.pct = p, score = 0.80\<rparr>) = ''advance''
   \<and> level (recommendationFromScore \<lparr>scoreObj.pct = p, score = 0.799999\<rparr>) = ''hold''
   \<and> level (recommendationFromScore \<lparr>scoreObj.pct = p, score = 0.55\<rparr>) = ''hold''
   \<and> level (recommendationFromScore \<lparr>scoreObj.pct = p, score = 0.549999\<rparr>) = ''reduce''"
  by (simp add: recommendationFromScore_def)

theorem recommendationFromScore_thresholds_witness:
  "scoreObj.score \<lparr>scoreObj.pct = 1, score = 9 / 10\<rparr> \<ge> 0.80
   \<and> level (recommendationFromScore \<lparr>scoreObj.pct = 1, score = 9 / 10\<rparr>) = ''advance''
   \<and> 0.55 \<le> scoreObj.score \<lparr>scoreObj.pct = 1, score = 6 / 10\<rparr>
   \<and> scoreObj.score \<lparr>scoreObj.pct = 1, score = 6 / 10\<rparr> < 0.80
   \<and> level (recommendationFromScore \<lparr>scoreObj.pct = 1, score = 6 / 10\<rparr>) = ''hold''
   \<and> scoreObj.score \<lparr>scoreObj.pct = 1, score = 1 / 10\<rparr> < 0.55
   \<and> level (recommendationFromScore \<lparr>scoreObj.pct = 1, score = 1 / 10\<rparr>) = ''reduce''"
  using recommendationFromScore_thresholds [of "\<lparr>scoreObj.pct = 1, score = 9 / 10\<rparr>" 0]
    recommendationFromScore_thresholds [of "\<lparr>scoreObj.pct = 1, score = 6 / 10\<rparr>" 0]
    recommendationFromScore_thresholds [of "\<lparr>scoreObj.pct = 1, score = 1 / 10\<rparr>" 0]
  by simp

section \<open>Reduction suggestions\<close>

lemma itemKey_of_inj:
  assumes "itemKey_of it i = itemKey_of it' j"
  shows "i = j"
proof -
  from assms have "item.exerciseId it @ CHR '':'' # string_of_nat i
                     = item.exerciseId it' @ CHR '':'' # string_of_nat j"
    by (simp add: itemKey_of_def)
  then have "string_of_nat i = string_of_nat j"
    using split_at_last_colon colon_notin_string_of_nat by blast
  then show ?thesis by (rule string_of_nat_inj)
qed

lemma itemKey_of_inj_on_enumerate:
  "inj_on (\<lambda>(idx, it). itemKey_of it idx) (set (enumerate 0 its))"
proof (rule inj_onI)
  fix x y
  assume x: "x \<in> set (enumerate 0 its)" and y: "y \<in> set (enumerate 0 its)"
    and eq: "(case x of (idx, it) \<Rightarrow> itemKey_of it idx) = (case y of (idx, it) \<Rightarrow> itemKey_of it idx)"
  obtain i a where xa: "x = (i, a)" by (cases x)
  obtain j b where yb: "y = (j, b)" by (cases y)
  from eq xa yb have "i = j" by (auto dest: itemKey_of_inj)
  moreover from x xa have "a = its ! i" by (simp add: in_set_enumerate_eq)
  moreover from y yb have "b = its ! j" by (simp add: in_set_enumerate_eq)
  ultimately show "x = y" using xa yb by simp
qed

lemma spec_step_pos: "1 \<le> spec_step it"
  by (simp add: spec_step_def)

lemma spec_newSets_eq_iff:
  "spec_newSets it idx acts tgts = targetSets_of it idx tgts \<longleftrightarrow>
     \<not> ((noData_of it idx acts \<or> setsDone_of it idx acts < targetSets_of it idx tgts)
         \<and> 1 < targetSets_of it idx tgts)"
  using targetSets_of_pos [of it idx tgts] by (auto simp: spec_newSets_def)

lemma spec_newReps_eq_iff:
  "spec_newReps it idx acts tgts = targetReps_of it idx tgts \<longleftrightarrow>
     \<not> ((noData_of it idx acts \<or> repsDone_of it idx acts < targetReps_of it idx tgts)
         \<and> 1 < targetReps_of it idx tgts)"
  using targetReps_of_pos [of it idx tgts] spec_step_pos [of it]
  by (auto simp: spec_newReps_def)

lemma spec_proposal_None_iff:
  "spec_proposal acts tgts (idx, it) = None \<longleftrightarrow>
     type it = ''block'' \<or> \<not> can_be_eased acts tgts (idx, it)"
  unfolding spec_proposal_def can_be_eased_def prod.case
  by (simp add: spec_newSets_eq_iff spec_newReps_eq_iff)

lemma spec_proposal_SomeD:
  assumes "spec_proposal acts tgts (idx, it) = Some p"
  shows "type it \<noteq> ''block''"
    and "itemKey p = itemKey_of it idx"
    and "from' p = \<lparr>quantity.sets = targetSets_of it idx tgts,
                     reps = targetReps_of it idx tgts, unit = item.unit it\<rparr>"
    and "to' p = \<lparr>quantity.sets = spec_newSets it idx acts tgts,
                   reps = spec_newReps it idx acts tgts, unit = item.unit it\<rparr>"
    and "spec_newSets it idx acts tgts \<noteq> targetSets_of it idx tgts
         \<or> spec_newReps it idx acts tgts \<noteq> targetReps_of it idx tgts"
  using assms unfolding spec_proposal_def prod.case
  by (auto split: if_splits)

lemma set_map_filter_eq:
  "set (List.map_filter g xs) = {y. \<exists>x \<in> set xs. g x = Some y}"
  by (induction xs) (auto simp: List.map_filter_simps split: option.splits)

lemma set_suggestReduction:
  "p \<in> set (suggestReduction its acts tgts) \<longleftrightarrow>
     (\<exists>idx < length its. spec_proposal acts tgts (idx, its ! idx) = Some p)"
  unfolding suggestReduction_collect set_map_filter_eq
  by (auto simp: in_set_enumerate_eq)

lemma map_itemKey_map_filter:
  "map itemKey (List.map_filter (spec_proposal acts tgts) xs)
     = map (\<lambda>(idx, it). itemKey_of it idx)
         (filter (\<lambda>x. spec_proposal acts tgts x \<noteq> None) xs)"
proof (induction xs)
  case Nil
  then show ?case by (simp add: List.map_filter_simps)
next
  case (Cons x xs)
  obtain i a where x: "x = (i, a)" by (cases x)
  show ?case
  proof (cases "spec_proposal acts tgts (i, a)")
    case None
    with Cons x show ?thesis by (simp add: List.map_filter_simps)
  next
    case (Some p)
    with Cons x spec_proposal_SomeD(2) [OF Some] show ?thesis
      by (simp add: List.map_filter_simps)
  qed
qed

lemma map_itemKey_suggestReduction:
  "map itemKey (suggestReduction its acts tgts)
     = map (\<lambda>(idx, it). itemKey_of it idx) (filter (can_be_eased acts tgts) (measured its))"
proof -
  have "filter (\<lambda>x. spec_proposal acts tgts x \<noteq> None) (enumerate 0 its)
          = filter (can_be_eased acts tgts) (measured its)"
    unfolding measured_def filter_filter
    by (rule filter_cong [OF refl])
       (clarsimp simp del: not_None_eq simp add: spec_proposal_None_iff)
  then show ?thesis
    by (simp add: suggestReduction_collect map_itemKey_map_filter)
qed

lemma distinct_itemKey_suggestReduction:
  "distinct (map itemKey (suggestReduction its acts tgts))"
  unfolding map_itemKey_suggestReduction measured_def
  by (intro distinct_map [THEN iffD2] conjI distinct_filter distinct_enumerate
        inj_on_subset [OF itemKey_of_inj_on_enumerate]) auto

lemma itemKey_in_suggestReduction_iff:
  assumes "idx < length its"
  shows "itemKey_of (its ! idx) idx \<in> set (map itemKey (suggestReduction its acts tgts))
     \<longleftrightarrow> type (its ! idx) \<noteq> ''block'' \<and> can_be_eased acts tgts (idx, its ! idx)"
proof
  assume "itemKey_of (its ! idx) idx \<in> set (map itemKey (suggestReduction its acts tgts))"
  then obtain j b where jb: "(j, b) \<in> set (measured its)"
    and e: "can_be_eased acts tgts (j, b)"
    and k: "itemKey_of (its ! idx) idx = itemKey_of b j"
    unfolding map_itemKey_suggestReduction by auto
  from k have "idx = j" by (rule itemKey_of_inj)
  moreover from jb have "b = its ! j" and "type b \<noteq> ''block''"
    by (auto simp: measured_def in_set_enumerate_eq)
  ultimately show "type (its ! idx) \<noteq> ''block'' \<and> can_be_eased acts tgts (idx, its ! idx)"
    using e by simp
next
  assume a: "type (its ! idx) \<noteq> ''block'' \<and> can_be_eased acts tgts (idx, its ! idx)"
  with assms have "(idx, its ! idx) \<in> set (filter (can_be_eased acts tgts) (measured its))"
    by (simp add: measured_def in_set_enumerate_eq)
  then have "(\<lambda>(idx, it). itemKey_of it idx) (idx, its ! idx)
               \<in> set (map itemKey (suggestReduction its acts tgts))"
    unfolding map_itemKey_suggestReduction set_map by (rule imageI)
  then show "itemKey_of (its ! idx) idx \<in> set (map itemKey (suggestReduction its acts tgts))"
    by simp
qed

text \<open>
  C3. Every proposal that \<^const>\<open>suggestReduction\<close> emits belongs to a measured
  item of the session. Its set count is \<open>max 1 (targetSets - 1)\<close> when the item has
  no actual record or its recorded sets are below the effective target sets, and the
  target otherwise. Its repetition or duration value is the target less 1 for a time
  item measured in minutes, less 5 for any other time item and less 2 for a
  repetition item, never below 1, when the item has no actual record or its recorded
  value is below the effective target, and the target otherwise. An unattempted
  repetition item with target 3 sets of 10 gets the proposal 2 sets of 8; an
  unattempted time item in seconds with target 3 sets of 20 gets 2 sets of 15.
\<close>

theorem suggestReduction_proposal_values:
  "(\<forall>p \<in> set (suggestReduction its acts tgts). \<exists>idx < length its.
      (let it = its ! idx;
           targetSets = targetSets_of it idx tgts;
           targetReps = targetReps_of it idx tgts;
           noData = noData_of it idx acts;
           setsDone = setsDone_of it idx acts;
           repsDone = repsDone_of it idx acts
       in type it \<noteq> ''block''
          \<and> itemKey p = itemKey_of it idx
          \<and> from' p = \<lparr>quantity.sets = targetSets, reps = targetReps, unit = item.unit it\<rparr>
          \<and> quantity.sets (to' p) =
               (if noData \<or> setsDone < targetSets then max 1 (targetSets - 1)
                else targetSets)
          \<and> quantity.reps (to' p) =
               (if noData \<or> repsDone < targetReps
                then (if type it = ''time''
                      then (if item.unit it = Some ''min'' then max 1 (targetReps - 1)
                            else max 1 (targetReps - 5))
                      else max 1 (targetReps - 2))
                else targetReps)
          \<and> quantity.unit (to' p) = item.unit it))
   \<and> map to' (suggestReduction [measured_item ''reps'' ex 3 10 u r] Map.empty Map.empty)
        = [\<lparr>quantity.sets = 2, reps = 8, unit = Some u\<rparr>]
   \<and> map to' (suggestReduction [measured_item ''time'' ex 3 20 ''s'' r] Map.empty Map.empty)
        = [\<lparr>quantity.sets = 2, reps = 15, unit = Some ''s''\<rparr>]"
proof (intro conjI ballI)
  fix p
  assume "p \<in> set (suggestReduction its acts tgts)"
  then obtain idx where idx: "idx < length its"
    and p: "spec_proposal acts tgts (idx, its ! idx) = Some p"
    unfolding set_suggestReduction by blast
  note d = spec_proposal_SomeD [OF p]
  show "\<exists>idx < length its.
      (let it = its ! idx;
           targetSets = targetSets_of it idx tgts;
           targetReps = targetReps_of it idx tgts;
           noData = noData_of it idx acts;
           setsDone = setsDone_of it idx acts;
           repsDone = repsDone_of it idx acts
       in type it \<noteq> ''block''
          \<and> itemKey p = itemKey_of it idx
          \<and> from' p = \<lparr>quantity.sets = targetSets, reps = targetReps, unit = item.unit it\<rparr>
          \<and> quantity.sets (to' p) =
               (if noData \<or> setsDone < targetSets then max 1 (targetSets - 1)
                else targetSets)
          \<and> quantity.reps (to' p) =
               (if noData \<or> repsDone < targetReps
                then (if type it = ''time''
                      then (if item.unit it = Some ''min'' then max 1 (targetReps - 1)
                            else max 1 (targetReps - 5))
                      else max 1 (targetReps - 2))
                else targetReps)
          \<and> quantity.unit (to' p) = item.unit it)"
    using idx d(1,2,3)
    by (intro exI [of _ idx])
       (simp add: Let_def d(4) spec_newSets_def spec_newReps_def spec_step_def)
next
  show "map to' (suggestReduction [measured_item ''reps'' ex 3 10 u r] Map.empty Map.empty)
        = [\<lparr>quantity.sets = 2, reps = 8, unit = Some u\<rparr>]"
    by (simp add: suggestReduction_def forEach_def measured_item_def Let_def orDefault_def
          orElse_def)
next
  show "map to' (suggestReduction [measured_item ''time'' ex 3 20 ''s'' r] Map.empty Map.empty)
        = [\<lparr>quantity.sets = 2, reps = 15, unit = Some ''s''\<rparr>]"
    by (simp add: suggestReduction_def forEach_def measured_item_def Let_def orDefault_def
          orElse_def)
qed



theorem suggestReduction_proposal_values_witness:
  "\<lparr>itemKey = ''plank:0'', exerciseId = ''plank'', title = ''Plancha'',
     from' = \<lparr>quantity.sets = 3, reps = 20, unit = Some ''s''\<rparr>,
     to' = \<lparr>quantity.sets = 2, reps = 15, unit = Some ''s''\<rparr>\<rparr>
     \<in> set (suggestReduction [measured_item ''time'' ''plank'' 3 20 ''s'' ''60s'']
              Map.empty Map.empty)
   \<and> type (measured_item ''time'' ''plank'' 3 20 ''s'' ''60s'') \<noteq> ''block''
   \<and> noData_of (measured_item ''time'' ''plank'' 3 20 ''s'' ''60s'') 0 Map.empty
   \<and> targetSets_of (measured_item ''time'' ''plank'' 3 20 ''s'' ''60s'') 0 Map.empty = 3
   \<and> targetReps_of (measured_item ''time'' ''plank'' 3 20 ''s'' ''60s'') 0 Map.empty = 20"
proof -
  have k0: "string_of_nat 0 = ''0''"
    by code_simp
  have "suggestReduction [measured_item ''time'' ''plank'' 3 20 ''s'' ''60s'']
          Map.empty Map.empty
        = [\<lparr>itemKey = ''plank:0'', exerciseId = ''plank'', title = ''Plancha'',
            from' = \<lparr>quantity.sets = 3, reps = 20, unit = Some ''s''\<rparr>,
            to' = \<lparr>quantity.sets = 2, reps = 15, unit = Some ''s''\<rparr>\<rparr>]"
    by (simp add: suggestReduction_def forEach_def measured_item_def Let_def orDefault_def
          orElse_def itemKey_of_def k0 exerciseLibrary_def)
  then show ?thesis
    using suggestReduction_proposal_values
      [of "[measured_item ''time'' ''plank'' 3 20 ''s'' ''60s'']" Map.empty Map.empty]
    by (simp add: noData_of_def targetSets_of_def targetReps_of_def measured_item_def
          orDefault_def orElse_def Let_def)
qed

text \<open>
  C4, as stated, fails: a minute-based item with target 1 set of 8 of which 0 sets
  and 8 minutes are recorded has under-performed on its sets, and no proposal is
  emitted for it, since the set count cannot fall below 1.
\<close>

theorem suggestReduction_underperformed_counterexample:
  "suggestReduction [measured_item ''time'' ''marchInPlace'' 1 8 ''min'' em_dash]
      [''marchInPlace:0'' \<mapsto> \<lparr>setsDone = Some 0, repsDone = Some 8, notes' = None\<rparr>]
      Map.empty = []
   \<and> filter
        (underperformed
           [''marchInPlace:0'' \<mapsto> \<lparr>setsDone = Some 0, repsDone = Some 8, notes' = None\<rparr>]
           Map.empty)
        (measured [measured_item ''time'' ''marchInPlace'' 1 8 ''min'' em_dash])
      = [(0, measured_item ''time'' ''marchInPlace'' 1 8 ''min'' em_dash)]
   \<and> map itemKey
        (suggestReduction [measured_item ''time'' ''marchInPlace'' 1 8 ''min'' em_dash]
           [''marchInPlace:0'' \<mapsto> \<lparr>setsDone = Some 0, repsDone = Some 8, notes' = None\<rparr>]
           Map.empty)
      \<noteq> keys_of
          (filter
             (underperformed
                [''marchInPlace:0'' \<mapsto> \<lparr>setsDone = Some 0, repsDone = Some 8, notes' = None\<rparr>]
                Map.empty)
             (measured [measured_item ''time'' ''marchInPlace'' 1 8 ''min'' em_dash]))"
proof -
  have k0: "string_of_nat 0 = ''0''"
    by code_simp
  have a: "suggestReduction [measured_item ''time'' ''marchInPlace'' 1 8 ''min'' em_dash]
      [''marchInPlace:0'' \<mapsto> \<lparr>setsDone = Some 0, repsDone = Some 8, notes' = None\<rparr>]
      Map.empty = []"
    by (simp add: suggestReduction_def forEach_def measured_item_def Let_def orDefault_def
          orElse_def itemKey_of_def k0)
  have b: "filter
        (underperformed
           [''marchInPlace:0'' \<mapsto> \<lparr>setsDone = Some 0, repsDone = Some 8, notes' = None\<rparr>]
           Map.empty)
        (measured [measured_item ''time'' ''marchInPlace'' 1 8 ''min'' em_dash])
      = [(0, measured_item ''time'' ''marchInPlace'' 1 8 ''min'' em_dash)]"
    by (simp add: measured_def underperformed_def noData_of_def setsDone_of_def
          repsDone_of_def targetSets_of_def targetReps_of_def measured_item_def Let_def
          orDefault_def orElse_def itemKey_of_def k0)
  show ?thesis unfolding a b by (simp add: keys_of_def)
qed

text \<open>
  C4, amended. \<^const>\<open>suggestReduction\<close> returns, in session order, exactly one
  proposal for every measured item that can be eased, that is, that fell short (no
  actual record, or recorded value below the effective target) on its sets while the
  effective target sets are above 1, or on its repetitions or duration while that
  effective target is above 1. It emits no proposal for a block item, for a measured
  item whose recorded sets and repetitions both meet the targets, and for an item
  that fell short only on targets that are already 1.
\<close>

theorem suggestReduction_one_per_eased_item:
  "map itemKey (suggestReduction its acts tgts)
     = keys_of (filter (can_be_eased acts tgts) (measured its))
   \<and> distinct (map itemKey (suggestReduction its acts tgts))
   \<and> (\<forall>idx < length its.
         itemKey_of (its ! idx) idx \<in> set (map itemKey (suggestReduction its acts tgts))
         \<longleftrightarrow> type (its ! idx) \<noteq> ''block'' \<and> can_be_eased acts tgts (idx, its ! idx))
   \<and> (\<forall>x. can_be_eased acts tgts x \<longrightarrow> underperformed acts tgts x)"
proof (intro conjI allI impI)
  show "map itemKey (suggestReduction its acts tgts)
          = keys_of (filter (can_be_eased acts tgts) (measured its))"
    by (simp add: keys_of_def map_itemKey_suggestReduction)
  show "distinct (map itemKey (suggestReduction its acts tgts))"
    by (rule distinct_itemKey_suggestReduction)
next
  fix idx assume "idx < length its"
  then show "itemKey_of (its ! idx) idx \<in> set (map itemKey (suggestReduction its acts tgts))
         \<longleftrightarrow> type (its ! idx) \<noteq> ''block'' \<and> can_be_eased acts tgts (idx, its ! idx)"
    by (rule itemKey_in_suggestReduction_iff)
next
  fix x :: "nat \<times> item"
  assume "can_be_eased acts tgts x"
  then show "underperformed acts tgts x"
    by (cases x) (auto simp: can_be_eased_def underperformed_def)
qed

theorem suggestReduction_one_per_eased_item_witness:
  "(1::nat) < length [block_item ''warmup'', measured_item ''reps'' ''tableRow'' 3 10 ''reps'' ''60s'']
   \<and> can_be_eased Map.empty Map.empty
        (1, [block_item ''warmup'', measured_item ''reps'' ''tableRow'' 3 10 ''reps'' ''60s''] ! 1)
   \<and> underperformed Map.empty Map.empty
        (1, [block_item ''warmup'', measured_item ''reps'' ''tableRow'' 3 10 ''reps'' ''60s''] ! 1)
   \<and> map itemKey
        (suggestReduction
           [block_item ''warmup'', measured_item ''reps'' ''tableRow'' 3 10 ''reps'' ''60s'']
           Map.empty Map.empty)
      = [itemKey_of (measured_item ''reps'' ''tableRow'' 3 10 ''reps'' ''60s'') 1]"
proof -
  have e: "can_be_eased Map.empty Map.empty
        (1, [block_item ''warmup'', measured_item ''reps'' ''tableRow'' 3 10 ''reps'' ''60s''] ! 1)"
    by (simp add: can_be_eased_def noData_of_def targetSets_of_def measured_item_def
          orDefault_def orElse_def Let_def)
  have m: "filter (can_be_eased Map.empty Map.empty)
             (measured [block_item ''warmup'',
                        measured_item ''reps'' ''tableRow'' 3 10 ''reps'' ''60s''])
           = [(1, measured_item ''reps'' ''tableRow'' 3 10 ''reps'' ''60s'')]"
    by (simp add: measured_def can_be_eased_def noData_of_def block_item_def
          measured_item_def targetSets_of_def orDefault_def orElse_def Let_def)
  from e show ?thesis
    using suggestReduction_one_per_eased_item
      [of "[block_item ''warmup'', measured_item ''reps'' ''tableRow'' 3 10 ''reps'' ''60s'']"
          Map.empty Map.empty]
    by (simp add: m keys_of_def)
qed

text \<open>
  C10. Every proposal of \<^const>\<open>suggestReduction\<close> keeps both targets between 1
  and their current values and lowers at least one of them; and a measured item
  whose effective targets are both 1 gets no proposal, whatever was recorded for it.
\<close>

theorem suggestReduction_lowers_within_bounds:
  "(\<forall>p \<in> set (suggestReduction its acts tgts).
       1 \<le> quantity.sets (to' p) \<and> quantity.sets (to' p) \<le> quantity.sets (from' p)
     \<and> 1 \<le> quantity.reps (to' p) \<and> quantity.reps (to' p) \<le> quantity.reps (from' p)
     \<and> (quantity.sets (to' p) < quantity.sets (from' p)
          \<or> quantity.reps (to' p) < quantity.reps (from' p)))
   \<and> (\<forall>idx < length its.
         targetSets_of (its ! idx) idx tgts = 1 \<and> targetReps_of (its ! idx) idx tgts = 1
         \<longrightarrow> itemKey_of (its ! idx) idx
               \<notin> set (map itemKey (suggestReduction its acts tgts)))"
proof (intro conjI ballI allI impI)
  fix p
  assume "p \<in> set (suggestReduction its acts tgts)"
  then obtain idx where p: "spec_proposal acts tgts (idx, its ! idx) = Some p"
    unfolding set_suggestReduction by blast
  note d = spec_proposal_SomeD [OF p]
  note ts = targetSets_of_pos [of "its ! idx" idx tgts]
  note tr = targetReps_of_pos [of "its ! idx" idx tgts]
  note st = spec_step_pos [of "its ! idx"]
  have s1: "1 \<le> spec_newSets (its ! idx) idx acts tgts"
    and s2: "spec_newSets (its ! idx) idx acts tgts \<le> targetSets_of (its ! idx) idx tgts"
    using ts by (auto simp: spec_newSets_def)
  have r1: "1 \<le> spec_newReps (its ! idx) idx acts tgts"
    and r2: "spec_newReps (its ! idx) idx acts tgts \<le> targetReps_of (its ! idx) idx tgts"
    using tr st by (auto simp: spec_newReps_def)
  show "1 \<le> quantity.sets (to' p)" using s1 by (simp add: d(4))
  show "quantity.sets (to' p) \<le> quantity.sets (from' p)" using s2 by (simp add: d(3,4))
  show "1 \<le> quantity.reps (to' p)" using r1 by (simp add: d(4))
  show "quantity.reps (to' p) \<le> quantity.reps (from' p)" using r2 by (simp add: d(3,4))
  show "quantity.sets (to' p) < quantity.sets (from' p)
          \<or> quantity.reps (to' p) < quantity.reps (from' p)"
    using s2 r2 d(5) by (auto simp: d(3,4))
next
  fix idx
  assume idx: "idx < length its"
    and one: "targetSets_of (its ! idx) idx tgts = 1 \<and> targetReps_of (its ! idx) idx tgts = 1"
  from one have "\<not> can_be_eased acts tgts (idx, its ! idx)"
    by (simp add: can_be_eased_def)
  then show "itemKey_of (its ! idx) idx \<notin> set (map itemKey (suggestReduction its acts tgts))"
    unfolding itemKey_in_suggestReduction_iff [OF idx] by simp
qed

theorem suggestReduction_lowers_within_bounds_witness:
  "(0::nat) < length [measured_item ''reps'' ''plank'' 1 1 ''reps'' ''60s'']
   \<and> targetSets_of ([measured_item ''reps'' ''plank'' 1 1 ''reps'' ''60s''] ! 0) 0 Map.empty = 1
   \<and> targetReps_of ([measured_item ''reps'' ''plank'' 1 1 ''reps'' ''60s''] ! 0) 0 Map.empty = 1
   \<and> itemKey_of ([measured_item ''reps'' ''plank'' 1 1 ''reps'' ''60s''] ! 0) 0
        \<notin> set (map itemKey
            (suggestReduction [measured_item ''reps'' ''plank'' 1 1 ''reps'' ''60s'']
               Map.empty Map.empty))
   \<and> \<lparr>itemKey = ''plank:0'', exerciseId = ''plank'', title = ''Plancha'',
       from' = \<lparr>quantity.sets = 3, reps = 20, unit = Some ''s''\<rparr>,
       to' = \<lparr>quantity.sets = 2, reps = 15, unit = Some ''s''\<rparr>\<rparr>
       \<in> set (suggestReduction [measured_item ''time'' ''plank'' 3 20 ''s'' ''60s'']
                Map.empty Map.empty)"
proof -
  have k0: "string_of_nat 0 = ''0''"
    by code_simp
  have t: "targetSets_of ([measured_item ''reps'' ''plank'' 1 1 ''reps'' ''60s''] ! 0) 0 Map.empty = 1
     \<and> targetReps_of ([measured_item ''reps'' ''plank'' 1 1 ''reps'' ''60s''] ! 0) 0 Map.empty = 1"
    by (simp add: targetSets_of_def targetReps_of_def measured_item_def orDefault_def
          orElse_def Let_def)
  have m: "suggestReduction [measured_item ''time'' ''plank'' 3 20 ''s'' ''60s'']
          Map.empty Map.empty
        = [\<lparr>itemKey = ''plank:0'', exerciseId = ''plank'', title = ''Plancha'',
            from' = \<lparr>quantity.sets = 3, reps = 20, unit = Some ''s''\<rparr>,
            to' = \<lparr>quantity.sets = 2, reps = 15, unit = Some ''s''\<rparr>\<rparr>]"
    by (simp add: suggestReduction_def forEach_def measured_item_def Let_def orDefault_def
          orElse_def itemKey_of_def k0 exerciseLibrary_def)
  from t m show ?thesis
    using suggestReduction_lowers_within_bounds
        [of "[measured_item ''reps'' ''plank'' 1 1 ''reps'' ''60s'']" Map.empty Map.empty]
      suggestReduction_lowers_within_bounds
        [of "[measured_item ''time'' ''plank'' 3 20 ''s'' ''60s'']" Map.empty Map.empty]
    by simp
qed

section \<open>Saving a session\<close>

lemma forEach_from_update_other:
  assumes "\<And>x i m. f x i m = m(k x \<mapsto> v x)"
    and "p \<notin> k ` set xs"
  shows "forEach_from idx xs f m p = m p"
  using assms(2)
proof (induction xs arbitrary: idx m)
  case Nil
  then show ?case by simp
next
  case (Cons x xs)
  have "forEach_from idx (x # xs) f m p = forEach_from (Suc idx) xs f (f x idx m) p"
    by simp
  also have "\<dots> = (f x idx m) p"
    using Cons.prems by (intro Cons.IH) simp
  also have "\<dots> = m p"
    using Cons.prems by (simp add: assms(1))
  finally show ?case .
qed

lemma forEach_from_update_same:
  assumes "\<And>x i m. f x i m = m(k x \<mapsto> v x)"
    and "distinct (map k xs)" and "x \<in> set xs"
  shows "forEach_from idx xs f m (k x) = Some (v x)"
  using assms(2,3)
proof (induction xs arbitrary: idx m)
  case Nil
  then show ?case by simp
next
  case (Cons y ys)
  have step: "forEach_from idx (y # ys) f m (k x) = forEach_from (Suc idx) ys f (f y idx m) (k x)"
    by simp
  show ?case
  proof (cases "x = y")
    case True
    with Cons.prems have "k x \<notin> k ` set ys" by simp
    then have a: "forEach_from (Suc idx) ys f (f y idx m) (k x) = (f y idx m) (k x)"
      by (rule forEach_from_update_other [OF assms(1)])
    have b: "(f y idx m) (k x) = Some (v x)"
      using True by (simp add: assms(1))
    show ?thesis by (simp only: step a b)
  next
    case False
    with Cons.prems have "distinct (map k ys)" and "x \<in> set ys" by simp_all
    then have "forEach_from (Suc idx) ys f (f y idx m) (k x) = Some (v x)"
      by (rule Cons.IH)
    with step show ?thesis by simp
  qed
qed

lemma targetPath_inj: "targetPath w d k = targetPath w d k' \<Longrightarrow> k = k'"
  by (simp add: targetPath_def)

lemma applySuggestions_other:
  assumes "path \<notin> (\<lambda>sug. targetPath w d (itemKey sug)) ` set sugs"
  shows "applySuggestions w d sugs prev path = prev path"
proof (cases "sugs = []")
  case True
  then show ?thesis by (simp add: applySuggestions_def)
next
  case False
  have "forEach_from 0 sugs
          (\<lambda>sug idx next.
             let path = targetPath w d (itemKey sug)
             in next(path \<mapsto>
                  \<lparr>target.sets = Some (quantity.sets (to' sug)),
                   target.reps = Some (quantity.reps (to' sug))\<rparr>))
          prev path = prev path"
    by (rule forEach_from_update_other
          [where k = "\<lambda>sug. targetPath w d (itemKey sug)"
             and v = "\<lambda>sug. \<lparr>target.sets = Some (quantity.sets (to' sug)),
                             target.reps = Some (quantity.reps (to' sug))\<rparr>",
           OF _ assms])
       (simp add: Let_def)
  with False show ?thesis by (simp add: applySuggestions_def forEach_def)
qed

lemma applySuggestions_same:
  assumes "distinct (map itemKey sugs)" and "sug \<in> set sugs"
  shows "applySuggestions w d sugs prev (targetPath w d (itemKey sug))
           = Some \<lparr>target.sets = Some (quantity.sets (to' sug)),
                   target.reps = Some (quantity.reps (to' sug))\<rparr>"
proof -
  from assms(2) have ne: "sugs \<noteq> []" by auto
  have "inj_on (targetPath w d) (set (map itemKey sugs))"
    by (rule inj_onI) (rule targetPath_inj)
  with assms(1) have "distinct (map (targetPath w d) (map itemKey sugs))"
    by (rule distinct_map [THEN iffD2, OF conjI])
  then have dist: "distinct (map (\<lambda>sug. targetPath w d (itemKey sug)) sugs)"
    by (simp add: comp_def)
  have "forEach_from 0 sugs
          (\<lambda>sug idx next.
             let path = targetPath w d (itemKey sug)
             in next(path \<mapsto>
                  \<lparr>target.sets = Some (quantity.sets (to' sug)),
                   target.reps = Some (quantity.reps (to' sug))\<rparr>))
          prev (targetPath w d (itemKey sug))
        = Some \<lparr>target.sets = Some (quantity.sets (to' sug)),
                target.reps = Some (quantity.reps (to' sug))\<rparr>"
    by (rule forEach_from_update_same
          [where k = "\<lambda>sug. targetPath w d (itemKey sug)"
             and v = "\<lambda>sug. \<lparr>target.sets = Some (quantity.sets (to' sug)),
                             target.reps = Some (quantity.reps (to' sug))\<rparr>",
           OF _ dist assms(2)])
       (simp add: Let_def)
  with ne show ?thesis by (simp add: applySuggestions_def forEach_def)
qed

lemma distinct_app_reduceSuggestions:
  "distinct (map itemKey (app_reduceSuggestions st))"
  by (simp add: app_reduceSuggestions_def distinct_itemKey_suggestReduction)

lemma level_cases:
  "level (recommendationFromScore so) = ''advance''
   \<or> level (recommendationFromScore so) = ''hold''
   \<or> level (recommendationFromScore so) = ''reduce''"
  by (simp add: recommendationFromScore_def)

lemma findIndex_DAYS:
  "findIndex (\<lambda>d. day.id' d = ''A'') DAYS = 0"
  "findIndex (\<lambda>d. day.id' d = ''B'') DAYS = 1"
  "findIndex (\<lambda>d. day.id' d = ''C'') DAYS = 2"
  "findIndex (\<lambda>d. day.id' d = ''D'') DAYS = 3"
  by (simp_all add: findIndex_def DAYS_def)

lemma appState_saveSession:
  "app.appState (saveSession uid now today st) =
     (let s = app.appState st; rec = app_rec st
      in if smartProgression s then
           (if level rec = ''advance'' then
              (let idx = findIndex (\<lambda>d. day.id' d = appState.dayId s) DAYS
               in if idx < int (length DAYS) - 1
                  then s\<lparr>appState.dayId := day.id' (DAYS ! nat (idx + 1))\<rparr>
                  else s\<lparr>appState.week := clamp (appState.week s + 1) 1 20,
                         appState.dayId := ''A''\<rparr>)
            else if level rec = ''hold'' then
              (let idx = findIndex (\<lambda>d. day.id' d = appState.dayId s) DAYS
               in if idx < int (length DAYS) - 1
                  then s\<lparr>appState.dayId := day.id' (DAYS ! nat (idx + 1))\<rparr>
                  else s\<lparr>appState.dayId := ''A''\<rparr>)
            else s)
         else s)"
  by (simp add: saveSession_def Let_def)

lemma customTargets_saveSession:
  "app.customTargets (saveSession uid now today st) =
     (if smartProgression (app.appState st) \<and> level (app_rec st) = ''reduce''
      then applySuggestions (appState.week (app.appState st))
             (appState.dayId (app.appState st)) (app_reduceSuggestions st)
             (app.customTargets st)
      else app.customTargets st)"
  by (auto simp add: saveSession_def Let_def applySuggestions_def)

lemma DAYS_nth:
  "length DAYS = 4"
  "day.id' (DAYS ! Suc 0) = ''B''"
  "day.id' (DAYS ! 1) = ''B''"
  "day.id' (DAYS ! 2) = ''C''"
  "day.id' (DAYS ! 3) = ''D''"
  by (simp_all add: DAYS_def)

text \<open>
  C6. With automatic progression off, saving a session leaves the week and day
  pointer and every custom target as they are, whatever the recommendation. Every
  save, with the toggle on or off, puts the new log id in front of the log order,
  stores under it a log entry with the score, the compliance, the recommendation,
  the effort and the actuals of the draft, leaves the entries under every other id
  as they are, and resets the draft to no actuals, effort 7 and today's date.
\<close>

theorem saveSession_log_and_draft:
  "(\<not> smartProgression (app.appState st) \<longrightarrow>
       app.appState (saveSession uid now today st) = app.appState st
     \<and> app.customTargets (saveSession uid now today st) = app.customTargets st)
   \<and> order (app.logs (saveSession uid now today st)) = uid # order (app.logs st)
   \<and> byId (app.logs (saveSession uid now today st)) uid =
        Some \<lparr>sessionLog.id' = uid,
              createdAt = now,
              date = draft.date (app.draft st),
              week = appState.week (app.appState st),
              dayId = appState.dayId (app.appState st),
              sessionTitle = session.title (app_session st),
              rpe = draft.rpe (app.draft st),
              score = scoreObj.score (app_scoreObj st),
              pct = scoreObj.pct (app_scoreObj st),
              recommendation = level (app_rec st),
              actualByItemId = draft.actualByItemId (app.draft st),
              completed = True\<rparr>
   \<and> (\<forall>k. k \<noteq> uid \<longrightarrow>
          byId (app.logs (saveSession uid now today st)) k = byId (app.logs st) k)
   \<and> app.draft (saveSession uid now today st) =
        \<lparr>draft.actualByItemId = Map.empty, rpe = 7, completed = False, date = today\<rparr>"
  by (simp add: appState_saveSession customTargets_saveSession)
     (simp add: saveSession_def Let_def)

text \<open>
  C5. With automatic progression on, saving a session moves the week and day
  pointer by the recommendation. Advance goes to the next day letter, and from day
  D to day A of the next week, the week never exceeding 20, so that week 20 day D
  leads to week 20 day A. Hold goes to the next day letter, and from day D to day A
  of the same week. Reduce leaves week and day as they are and writes the proposed
  targets of every reduction suggestion into the custom targets of the current
  week and day, every other custom target staying as it is.
\<close>

theorem saveSession_progression:
  assumes "smartProgression (app.appState st)"
  shows "(level (app_rec st) = ''advance'' \<longrightarrow>
            (appState.dayId (app.appState st) = ''A'' \<longrightarrow>
               app.appState (saveSession uid now today st)
                 = (app.appState st)\<lparr>appState.dayId := ''B''\<rparr>)
          \<and> (appState.dayId (app.appState st) = ''B'' \<longrightarrow>
               app.appState (saveSession uid now today st)
                 = (app.appState st)\<lparr>appState.dayId := ''C''\<rparr>)
          \<and> (appState.dayId (app.appState st) = ''C'' \<longrightarrow>
               app.appState (saveSession uid now today st)
                 = (app.appState st)\<lparr>appState.dayId := ''D''\<rparr>)
          \<and> (appState.dayId (app.appState st) = ''D'' \<longrightarrow>
               app.appState (saveSession uid now today st)
                 = (app.appState st)
                     \<lparr>appState.week := clamp (appState.week (app.appState st) + 1) 1 20,
                      appState.dayId := ''A''\<rparr>)
          \<and> (appState.dayId (app.appState st) = ''D''
               \<and> 1 \<le> appState.week (app.appState st)
               \<and> appState.week (app.appState st) \<le> 20 \<longrightarrow>
               appState.week (app.appState (saveSession uid now today st))
                 = min 20 (appState.week (app.appState st) + 1)))
       \<and> (level (app_rec st) = ''hold'' \<longrightarrow>
            (appState.dayId (app.appState st) = ''A'' \<longrightarrow>
               app.appState (saveSession uid now today st)
                 = (app.appState st)\<lparr>appState.dayId := ''B''\<rparr>)
          \<and> (appState.dayId (app.appState st) = ''B'' \<longrightarrow>
               app.appState (saveSession uid now today st)
                 = (app.appState st)\<lparr>appState.dayId := ''C''\<rparr>)
          \<and> (appState.dayId (app.appState st) = ''C'' \<longrightarrow>
               app.appState (saveSession uid now today st)
                 = (app.appState st)\<lparr>appState.dayId := ''D''\<rparr>)
          \<and> (appState.dayId (app.appState st) = ''D'' \<longrightarrow>
               app.appState (saveSession uid now today st)
                 = (app.appState st)\<lparr>appState.dayId := ''A''\<rparr>))
       \<and> (level (app_rec st) = ''reduce'' \<longrightarrow>
            app.appState (saveSession uid now today st) = app.appState st
          \<and> (\<forall>sug \<in> set (app_reduceSuggestions st).
                app.customTargets (saveSession uid now today st)
                  (targetPath (appState.week (app.appState st))
                     (appState.dayId (app.appState st)) (itemKey sug))
                = Some \<lparr>target.sets = Some (quantity.sets (to' sug)),
                        target.reps = Some (quantity.reps (to' sug))\<rparr>)
          \<and> (\<forall>path. path \<notin> (\<lambda>sug. targetPath (appState.week (app.appState st))
                                      (appState.dayId (app.appState st)) (itemKey sug))
                              ` set (app_reduceSuggestions st) \<longrightarrow>
                app.customTargets (saveSession uid now today st) path
                  = app.customTargets st path))
       \<and> (level (app_rec st) \<noteq> ''reduce'' \<longrightarrow>
            app.customTargets (saveSession uid now today st) = app.customTargets st)
       \<and> (level (app_rec st) = ''advance'' \<or> level (app_rec st) = ''hold''
            \<or> level (app_rec st) = ''reduce'')"
proof (intro conjI)
  show "level (app_rec st) = ''advance'' \<longrightarrow>
            (appState.dayId (app.appState st) = ''A'' \<longrightarrow>
               app.appState (saveSession uid now today st)
                 = (app.appState st)\<lparr>appState.dayId := ''B''\<rparr>)
          \<and> (appState.dayId (app.appState st) = ''B'' \<longrightarrow>
               app.appState (saveSession uid now today st)
                 = (app.appState st)\<lparr>appState.dayId := ''C''\<rparr>)
          \<and> (appState.dayId (app.appState st) = ''C'' \<longrightarrow>
               app.appState (saveSession uid now today st)
                 = (app.appState st)\<lparr>appState.dayId := ''D''\<rparr>)
          \<and> (appState.dayId (app.appState st) = ''D'' \<longrightarrow>
               app.appState (saveSession uid now today st)
                 = (app.appState st)
                     \<lparr>appState.week := clamp (appState.week (app.appState st) + 1) 1 20,
                      appState.dayId := ''A''\<rparr>)
          \<and> (appState.dayId (app.appState st) = ''D''
               \<and> 1 \<le> appState.week (app.appState st)
               \<and> appState.week (app.appState st) \<le> 20 \<longrightarrow>
               appState.week (app.appState (saveSession uid now today st))
                 = min 20 (appState.week (app.appState st) + 1))"
    using assms
    by (simp add: appState_saveSession Let_def findIndex_DAYS DAYS_nth clamp_def)
  show "level (app_rec st) = ''hold'' \<longrightarrow>
            (appState.dayId (app.appState st) = ''A'' \<longrightarrow>
               app.appState (saveSession uid now today st)
                 = (app.appState st)\<lparr>appState.dayId := ''B''\<rparr>)
          \<and> (appState.dayId (app.appState st) = ''B'' \<longrightarrow>
               app.appState (saveSession uid now today st)
                 = (app.appState st)\<lparr>appState.dayId := ''C''\<rparr>)
          \<and> (appState.dayId (app.appState st) = ''C'' \<longrightarrow>
               app.appState (saveSession uid now today st)
                 = (app.appState st)\<lparr>appState.dayId := ''D''\<rparr>)
          \<and> (appState.dayId (app.appState st) = ''D'' \<longrightarrow>
               app.appState (saveSession uid now today st)
                 = (app.appState st)\<lparr>appState.dayId := ''A''\<rparr>)"
    using assms
    by (simp add: appState_saveSession Let_def findIndex_DAYS DAYS_nth)
  show "level (app_rec st) = ''reduce'' \<longrightarrow>
            app.appState (saveSession uid now today st) = app.appState st
          \<and> (\<forall>sug \<in> set (app_reduceSuggestions st).
                app.customTargets (saveSession uid now today st)
                  (targetPath (appState.week (app.appState st))
                     (appState.dayId (app.appState st)) (itemKey sug))
                = Some \<lparr>target.sets = Some (quantity.sets (to' sug)),
                        target.reps = Some (quantity.reps (to' sug))\<rparr>)
          \<and> (\<forall>path. path \<notin> (\<lambda>sug. targetPath (appState.week (app.appState st))
                                      (appState.dayId (app.appState st)) (itemKey sug))
                              ` set (app_reduceSuggestions st) \<longrightarrow>
                app.customTargets (saveSession uid now today st) path
                  = app.customTargets st path)"
    using assms
    by (simp add: appState_saveSession customTargets_saveSession Let_def
          applySuggestions_same [OF distinct_app_reduceSuggestions] applySuggestions_other)
  show "level (app_rec st) \<noteq> ''reduce'' \<longrightarrow>
            app.customTargets (saveSession uid now today st) = app.customTargets st"
    by (simp add: customTargets_saveSession)
  show "level (app_rec st) = ''advance'' \<or> level (app_rec st) = ''hold''
            \<or> level (app_rec st) = ''reduce''"
    unfolding app_rec_def by (rule level_cases)
qed

section \<open>The example states\<close>

lemma week_buildWeekPlan: "weekPlan.week (buildWeekPlan w) = w"
  by (simp add: buildWeekPlan_def Let_def)

lemma find_week_upto:
  "a \<le> w \<Longrightarrow> w \<le> b \<Longrightarrow>
   List.find (\<lambda>p. weekPlan.week p = w) (map buildWeekPlan [a..b]) = Some (buildWeekPlan w)"
proof (induction a b rule: upto.induct)
  case (1 i j)
  from "1.prems" have ij: "i \<le> j" by simp
  show ?case
  proof (cases "i = w")
    case True
    with ij show ?thesis by (simp add: upto_rec1 week_buildWeekPlan)
  next
    case False
    with "1.prems" have "i + 1 \<le> w" by simp
    with ij "1.prems" have "List.find (\<lambda>p. weekPlan.week p = w) (map buildWeekPlan [i + 1..j])
                    = Some (buildWeekPlan w)"
      by (intro "1.IH")
    with ij False show ?thesis by (simp add: upto_rec1 week_buildWeekPlan)
  qed
qed

lemma find_week:
  "1 \<le> w \<Longrightarrow> w \<le> 20 \<Longrightarrow>
   List.find (\<lambda>p. weekPlan.week p = w) getPlan20Weeks = Some (buildWeekPlan w)"
  unfolding getPlan20Weeks_def by (rule find_week_upto)

lemma app_session_D:
  "1 \<le> w \<Longrightarrow> w \<le> 20 \<Longrightarrow>
   app_session (example_app w ''D'' smart acts) = sessions (buildWeekPlan w) ! 3"
  by (simp add: app_session_def example_app_def find_week orDefault_def Let_def)
     (simp add: buildWeekPlan_def Let_def)

lemma app_session_B:
  "1 \<le> w \<Longrightarrow> w \<le> 20 \<Longrightarrow>
   app_session (example_app w ''B'' smart acts) = sessions (buildWeekPlan w) ! 1"
  by (simp add: app_session_def example_app_def find_week orDefault_def Let_def)
     (simp add: buildWeekPlan_def Let_def)

lemma string_of_nat_numerals:
  "string_of_nat 0 = ''0''" "string_of_nat 1 = ''1''" "string_of_nat (Suc 0) = ''1''"
  "string_of_nat 2 = ''2''" "string_of_nat 3 = ''3''"
  "string_of_nat 4 = ''4''" "string_of_nat 5 = ''5''" "string_of_nat 6 = ''6''"
  "string_of_nat (Suc (Suc 0)) = ''2''" "string_of_nat (Suc (Suc (Suc 0))) = ''3''"
  "string_of_nat (Suc (Suc (Suc (Suc 0)))) = ''4''"
  "string_of_nat (Suc (Suc (Suc (Suc (Suc 0))))) = ''5''"
  "string_of_nat (Suc (Suc (Suc (Suc (Suc (Suc 0)))))) = ''6''"
  by code_simp+

lemma round_double_small:
  "round_double (1 / 2) = 1 / 2" "round_double 1 = 1" "round_double 2 = 2"
  "round_double 3 = 3" "round_double 4 = 4" "round_double 5 = 5"
  by code_simp+

lemma spec_sum_zeros: "spec_sum (map (\<lambda>x. 0) xs) = 0"
proof -
  have "foldl (\<lambda>acc x. round_double (acc + x)) 0 (map (\<lambda>x. 0) xs) = 0"
    by (induction xs) simp_all
  then show ?thesis by (simp add: spec_sum_def)
qed

lemma itemKey_of_measured_item:
  "itemKey_of (measured_item ty ex s r u rst) idx = ex @ '':'' @ string_of_nat idx"
  by (simp add: itemKey_of_def measured_item_def)

lemma items_D_5:
  "items (app_session (example_app 5 ''D'' smart acts)) =
     [block_item ''warmup'',
      measured_item ''reps'' ''tableRow'' 3 7 ''reps'' (''60'' @ en_dash @ ''90s''),
      measured_item ''reps'' ''gluteBridge'' 2 12 ''reps'' ''60s'',
      measured_item ''reps'' ''deadBug'' 3 8 ''reps/lado'' (''45'' @ en_dash @ ''60s''),
      measured_item ''time'' ''plank'' 3 30 ''s'' (''45'' @ en_dash @ ''60s''),
      measured_item ''time'' ''marchInPlace'' 1 10 ''min'' em_dash,
      block_item ''cooldown'']"
proof -
  have "app_session (example_app 5 ''D'' smart acts) = sessions (buildWeekPlan 5) ! 3"
    by (rule app_session_D) simp_all
  then show ?thesis
    unfolding buildWeekPlan_def floor_half
    by (simp add: Let_def setsForWeek_def repsForWeek_div secondsForWeek_div
          isDeloadWeek_def clamp_def)
qed

lemma targets_D_5:
  "app_targetsByItemId (example_app 5 ''D'' smart acts) =
     [''tableRow:1'' \<mapsto> \<lparr>target.sets = Some 3, target.reps = Some 7\<rparr>,
      ''gluteBridge:2'' \<mapsto> \<lparr>target.sets = Some 2, target.reps = Some 12\<rparr>,
      ''deadBug:3'' \<mapsto> \<lparr>target.sets = Some 3, target.reps = Some 8\<rparr>,
      ''plank:4'' \<mapsto> \<lparr>target.sets = Some 3, target.reps = Some 30\<rparr>,
      ''marchInPlace:5'' \<mapsto> \<lparr>target.sets = Some 1, target.reps = Some 10\<rparr>]"
  unfolding app_targetsByItemId_def items_D_5 forEach_def forEach_from.simps
    itemKey_of_measured_item string_of_nat_numerals
  by (simp add: example_app_def block_item_def measured_item_def Let_def orElse_def)

lemma measured_D_5:
  "measured (items (app_session (example_app 5 ''D'' smart acts))) =
     [(1, measured_item ''reps'' ''tableRow'' 3 7 ''reps'' (''60'' @ en_dash @ ''90s'')),
      (2, measured_item ''reps'' ''gluteBridge'' 2 12 ''reps'' ''60s''),
      (3, measured_item ''reps'' ''deadBug'' 3 8 ''reps/lado'' (''45'' @ en_dash @ ''60s'')),
      (4, measured_item ''time'' ''plank'' 3 30 ''s'' (''45'' @ en_dash @ ''60s'')),
      (5, measured_item ''time'' ''marchInPlace'' 1 10 ''min'' em_dash)]"
  unfolding items_D_5
  by (simp add: measured_def block_item_def measured_item_def eval_nat_numeral)

lemma contributions_D_5:
  "map (spec_contribution
          (draft.actualByItemId (app.draft (example_app 5 ''D'' smart example_actuals_D)))
          (app_targetsByItemId (example_app 5 ''D'' smart example_actuals_D)))
     (measured (items (app_session (example_app 5 ''D'' smart example_actuals_D))))
   = [1, 1, 1, 1, 1]"
  unfolding measured_D_5 list.map spec_contribution_def prod.case setsDone_of_def
    repsDone_of_def targetSets_of_def targetReps_of_def itemKey_of_measured_item
    string_of_nat_numerals targets_D_5 Let_def
  by (simp add: example_app_def example_actuals_D_def measured_item_def orDefault_def
        orElse_def clamp_ge_1 round_double_ge_1 round_double_small)

lemma level_D_5:
  "level (app_rec (example_app 5 ''D'' smart example_actuals_D)) = ''advance''"
proof -
  have "app_scoreObj (example_app 5 ''D'' smart example_actuals_D)
          = \<lparr>scoreObj.pct = 1, score = 1\<rparr>"
    unfolding app_scoreObj_def scoreSession_spec spec_compliancePct_def contributions_D_5
    by (simp add: example_app_def spec_penalty_def spec_sum_def round_double_small clamp_def)
  then show ?thesis by (simp add: app_rec_def recommendationFromScore_def)
qed

lemma items_D_20:
  "items (app_session (example_app 20 ''D'' smart acts)) =
     [block_item ''warmup'',
      measured_item ''reps'' ''tableRow'' 4 14 ''reps'' (''60'' @ en_dash @ ''90s''),
      measured_item ''reps'' ''gluteBridge'' 3 19 ''reps'' ''60s'',
      measured_item ''reps'' ''deadBug'' 4 15 ''reps/lado'' (''45'' @ en_dash @ ''60s''),
      measured_item ''time'' ''plank'' 4 65 ''s'' (''45'' @ en_dash @ ''60s''),
      measured_item ''time'' ''marchInPlace'' 1 17 ''min'' em_dash,
      block_item ''cooldown'']"
proof -
  have "app_session (example_app 20 ''D'' smart acts) = sessions (buildWeekPlan 20) ! 3"
    by (rule app_session_D) simp_all
  then show ?thesis
    unfolding buildWeekPlan_def floor_half
    by (simp add: Let_def setsForWeek_def repsForWeek_div secondsForWeek_div
          isDeloadWeek_def clamp_def)
qed

lemma targets_D_20:
  "app_targetsByItemId (example_app 20 ''D'' smart acts) =
     [''tableRow:1'' \<mapsto> \<lparr>target.sets = Some 4, target.reps = Some 14\<rparr>,
      ''gluteBridge:2'' \<mapsto> \<lparr>target.sets = Some 3, target.reps = Some 19\<rparr>,
      ''deadBug:3'' \<mapsto> \<lparr>target.sets = Some 4, target.reps = Some 15\<rparr>,
      ''plank:4'' \<mapsto> \<lparr>target.sets = Some 4, target.reps = Some 65\<rparr>,
      ''marchInPlace:5'' \<mapsto> \<lparr>target.sets = Some 1, target.reps = Some 17\<rparr>]"
  unfolding app_targetsByItemId_def items_D_20 forEach_def forEach_from.simps
    itemKey_of_measured_item string_of_nat_numerals
  by (simp add: example_app_def block_item_def measured_item_def Let_def orElse_def)

lemma measured_D_20:
  "measured (items (app_session (example_app 20 ''D'' smart acts))) =
     [(1, measured_item ''reps'' ''tableRow'' 4 14 ''reps'' (''60'' @ en_dash @ ''90s'')),
      (2, measured_item ''reps'' ''gluteBridge'' 3 19 ''reps'' ''60s''),
      (3, measured_item ''reps'' ''deadBug'' 4 15 ''reps/lado'' (''45'' @ en_dash @ ''60s'')),
      (4, measured_item ''time'' ''plank'' 4 65 ''s'' (''45'' @ en_dash @ ''60s'')),
      (5, measured_item ''time'' ''marchInPlace'' 1 17 ''min'' em_dash)]"
  unfolding items_D_20
  by (simp add: measured_def block_item_def measured_item_def eval_nat_numeral)

lemma contributions_D_20:
  "map (spec_contribution
          (draft.actualByItemId (app.draft (example_app 20 ''D'' smart example_actuals_D)))
          (app_targetsByItemId (example_app 20 ''D'' smart example_actuals_D)))
     (measured (items (app_session (example_app 20 ''D'' smart example_actuals_D))))
   = [1, 1, 1, 1, 1]"
  unfolding measured_D_20 list.map spec_contribution_def prod.case setsDone_of_def
    repsDone_of_def targetSets_of_def targetReps_of_def itemKey_of_measured_item
    string_of_nat_numerals targets_D_20 Let_def
  by (simp add: example_app_def example_actuals_D_def measured_item_def orDefault_def
        orElse_def clamp_ge_1 round_double_ge_1 round_double_small)

lemma level_D_20:
  "level (app_rec (example_app 20 ''D'' smart example_actuals_D)) = ''advance''"
proof -
  have "app_scoreObj (example_app 20 ''D'' smart example_actuals_D)
          = \<lparr>scoreObj.pct = 1, score = 1\<rparr>"
    unfolding app_scoreObj_def scoreSession_spec spec_compliancePct_def contributions_D_20
    by (simp add: example_app_def spec_penalty_def spec_sum_def round_double_small clamp_def)
  then show ?thesis by (simp add: app_rec_def recommendationFromScore_def)
qed

lemma spec_contribution_no_actuals: "spec_contribution Map.empty tgts = (\<lambda>x. 0)"
  by (rule ext)
     (simp add: spec_contribution_def setsDone_of_def repsDone_of_def orDefault_def
        clamp_def Let_def split_beta)

lemma level_no_actuals:
  assumes "draft.actualByItemId (app.draft st) = Map.empty"
  shows "level (app_rec st) = ''reduce''"
proof -
  have "clamp (round_double (0 - spec_penalty e)) 0 1 = 0" for e
  proof -
    have "0 \<le> spec_penalty e" by (simp add: spec_penalty_def round_double_nonneg)
    then have "round_double (0 - spec_penalty e) \<le> 0"
      by (intro round_double_nonpos) simp
    then show ?thesis by (simp add: clamp_def max_def min_def)
  qed
  then have "scoreObj.score (app_scoreObj st) = 0"
    by (simp add: app_scoreObj_def scoreSession_spec spec_compliancePct_def assms
          spec_contribution_no_actuals spec_sum_zeros Let_def)
  then show ?thesis by (simp add: app_rec_def recommendationFromScore_def)
qed

lemma items_B_1:
  "items (app_session (example_app 1 ''B'' smart acts)) =
     [block_item ''warmup'',
      measured_item ''reps'' ''chairSquat'' 2 8 ''reps'' (''60'' @ en_dash @ ''90s''),
      measured_item ''reps'' ''stepUp'' 2 8 ''reps/lado'' (''60'' @ en_dash @ ''90s''),
      measured_item ''reps'' ''tableRow'' 2 5 ''reps'' (''60'' @ en_dash @ ''90s''),
      measured_item ''reps'' ''calfRaise'' 2 10 ''reps'' (''45'' @ en_dash @ ''60s''),
      measured_item ''time'' ''marchInPlace'' 1 8 ''min'' em_dash,
      block_item ''cooldown'']"
proof -
  have "app_session (example_app 1 ''B'' smart acts) = sessions (buildWeekPlan 1) ! 1"
    by (rule app_session_B) simp_all
  then show ?thesis
    unfolding buildWeekPlan_def floor_half
    by (simp add: Let_def setsForWeek_def repsForWeek_div secondsForWeek_div
          isDeloadWeek_def clamp_def)
qed

lemma targets_B_1:
  "app_targetsByItemId (example_app 1 ''B'' smart acts) =
     [''chairSquat:1'' \<mapsto> \<lparr>target.sets = Some 2, target.reps = Some 8\<rparr>,
      ''stepUp:2'' \<mapsto> \<lparr>target.sets = Some 2, target.reps = Some 8\<rparr>,
      ''tableRow:3'' \<mapsto> \<lparr>target.sets = Some 2, target.reps = Some 5\<rparr>,
      ''calfRaise:4'' \<mapsto> \<lparr>target.sets = Some 2, target.reps = Some 10\<rparr>,
      ''marchInPlace:5'' \<mapsto> \<lparr>target.sets = Some 1, target.reps = Some 8\<rparr>]"
  unfolding app_targetsByItemId_def items_B_1 forEach_def forEach_from.simps
    itemKey_of_measured_item string_of_nat_numerals
  by (simp add: example_app_def block_item_def measured_item_def Let_def orElse_def)

lemma proposal_B_1:
  "spec_proposal Map.empty (app_targetsByItemId (example_app 1 ''B'' smart Map.empty))
     (1, measured_item ''reps'' ''chairSquat'' 2 8 ''reps'' (''60'' @ en_dash @ ''90s''))
   = Some \<lparr>itemKey = ''chairSquat:1'', exerciseId = ''chairSquat'',
            title = ''Sentadilla a silla'',
            from' = \<lparr>quantity.sets = 2, reps = 8, unit = Some ''reps''\<rparr>,
            to' = \<lparr>quantity.sets = 1, reps = 6, unit = Some ''reps''\<rparr>\<rparr>"
  unfolding spec_proposal_def prod.case spec_newSets_def spec_newReps_def spec_step_def
    noData_of_def setsDone_of_def repsDone_of_def targetSets_of_def targetReps_of_def
    itemKey_of_measured_item string_of_nat_numerals targets_B_1 Let_def
  by (simp add: measured_item_def orDefault_def orElse_def exerciseLibrary_def)

lemma suggestion_B_1:
  "\<lparr>itemKey = ''chairSquat:1'', exerciseId = ''chairSquat'',
     title = ''Sentadilla a silla'',
     from' = \<lparr>quantity.sets = 2, reps = 8, unit = Some ''reps''\<rparr>,
     to' = \<lparr>quantity.sets = 1, reps = 6, unit = Some ''reps''\<rparr>\<rparr>
   \<in> set (app_reduceSuggestions (example_app 1 ''B'' smart Map.empty))"
proof -
  have lv: "level (app_rec (example_app 1 ''B'' smart Map.empty)) = ''reduce''"
    by (rule level_no_actuals) (simp add: example_app_def)
  have ex: "\<exists>idx < length (items (app_session (example_app 1 ''B'' smart Map.empty))).
          spec_proposal Map.empty (app_targetsByItemId (example_app 1 ''B'' smart Map.empty))
            (idx, items (app_session (example_app 1 ''B'' smart Map.empty)) ! idx)
          = Some \<lparr>itemKey = ''chairSquat:1'', exerciseId = ''chairSquat'',
            title = ''Sentadilla a silla'',
            from' = \<lparr>quantity.sets = 2, reps = 8, unit = Some ''reps''\<rparr>,
            to' = \<lparr>quantity.sets = 1, reps = 6, unit = Some ''reps''\<rparr>\<rparr>"
  proof (intro exI [of _ 1] conjI)
    show "1 < length (items (app_session (example_app 1 ''B'' smart Map.empty)))"
      by (simp add: items_B_1)
    have "items (app_session (example_app 1 ''B'' smart Map.empty)) ! 1
            = measured_item ''reps'' ''chairSquat'' 2 8 ''reps'' (''60'' @ en_dash @ ''90s'')"
      unfolding items_B_1 by simp
    then show "spec_proposal Map.empty
            (app_targetsByItemId (example_app 1 ''B'' smart Map.empty))
            (1, items (app_session (example_app 1 ''B'' smart Map.empty)) ! 1)
          = Some \<lparr>itemKey = ''chairSquat:1'', exerciseId = ''chairSquat'',
            title = ''Sentadilla a silla'',
            from' = \<lparr>quantity.sets = 2, reps = 8, unit = Some ''reps''\<rparr>,
            to' = \<lparr>quantity.sets = 1, reps = 6, unit = Some ''reps''\<rparr>\<rparr>"
      by (simp only: proposal_B_1)
  qed
  have dr: "draft.actualByItemId (app.draft (example_app 1 ''B'' smart Map.empty))
              = Map.empty"
    by (simp add: example_app_def)
  have "\<lparr>itemKey = ''chairSquat:1'', exerciseId = ''chairSquat'',
     title = ''Sentadilla a silla'',
     from' = \<lparr>quantity.sets = 2, reps = 8, unit = Some ''reps''\<rparr>,
     to' = \<lparr>quantity.sets = 1, reps = 6, unit = Some ''reps''\<rparr>\<rparr>
   \<in> set (suggestReduction (items (app_session (example_app 1 ''B'' smart Map.empty)))
            Map.empty (app_targetsByItemId (example_app 1 ''B'' smart Map.empty)))"
    unfolding set_suggestReduction by (rule ex)
  then show ?thesis
    unfolding app_reduceSuggestions_def dr using lv by simp
qed

lemma example_app_sel:
  "app.appState (example_app w d smart acts)
     = \<lparr>appState.week = w, dayId = d, smartProgression = smart\<rparr>"
  "app.customTargets (example_app w d smart acts) = Map.empty"
  "app.logs (example_app w d smart acts)
     = \<lparr>order = [''old''], byId = [''old'' \<mapsto> example_log]\<rparr>"
  "app.draft (example_app w d smart acts)
     = \<lparr>draft.actualByItemId = acts, rpe = 7, completed = False, date = ''2025-01-06''\<rparr>"
  by (simp_all add: example_app_def)

theorem saveSession_progression_witness:
  "smartProgression (app.appState (example_app 20 ''D'' True example_actuals_D))
   \<and> level (app_rec (example_app 20 ''D'' True example_actuals_D)) = ''advance''
   \<and> app.appState (saveSession ''new'' ''2025-01-06T18:00:00.000Z'' ''2025-01-06''
                      (example_app 20 ''D'' True example_actuals_D))
       = \<lparr>appState.week = 20, dayId = ''A'', smartProgression = True\<rparr>
   \<and> level (app_rec (example_app 5 ''D'' True example_actuals_D)) = ''advance''
   \<and> app.appState (saveSession ''new'' ''2025-01-06T18:00:00.000Z'' ''2025-01-06''
                      (example_app 5 ''D'' True example_actuals_D))
       = \<lparr>appState.week = 6, dayId = ''A'', smartProgression = True\<rparr>
   \<and> level (app_rec (example_app 1 ''B'' True Map.empty)) = ''reduce''
   \<and> app.appState (saveSession ''new'' ''2025-01-06T18:00:00.000Z'' ''2025-01-06''
                      (example_app 1 ''B'' True Map.empty))
       = \<lparr>appState.week = 1, dayId = ''B'', smartProgression = True\<rparr>
   \<and> \<lparr>itemKey = ''chairSquat:1'', exerciseId = ''chairSquat'',
        title = ''Sentadilla a silla'',
        from' = \<lparr>quantity.sets = 2, reps = 8, unit = Some ''reps''\<rparr>,
        to' = \<lparr>quantity.sets = 1, reps = 6, unit = Some ''reps''\<rparr>\<rparr>
       \<in> set (app_reduceSuggestions (example_app 1 ''B'' True Map.empty))
   \<and> app.customTargets (saveSession ''new'' ''2025-01-06T18:00:00.000Z'' ''2025-01-06''
                          (example_app 1 ''B'' True Map.empty))
         (targetPath 1 ''B'' ''chairSquat:1'')
       = Some \<lparr>target.sets = Some 1, target.reps = Some 6\<rparr>"
proof -
  have sm: "smartProgression (app.appState (example_app w d True acts))" for w d acts
    by (simp add: example_app_sel)
  have lvB: "level (app_rec (example_app 1 ''B'' True Map.empty)) = ''reduce''"
    by (rule level_no_actuals) (simp add: example_app_sel)
  have a20: "app.appState (saveSession ''new'' ''2025-01-06T18:00:00.000Z'' ''2025-01-06''
                      (example_app 20 ''D'' True example_actuals_D))
       = \<lparr>appState.week = 20, dayId = ''A'', smartProgression = True\<rparr>"
    using saveSession_progression
      [OF sm, of 20 "''D''" example_actuals_D "''new''" "''2025-01-06T18:00:00.000Z''"
         "''2025-01-06''"]
    by (simp add: level_D_20 example_app_sel clamp_def)
  have a5: "app.appState (saveSession ''new'' ''2025-01-06T18:00:00.000Z'' ''2025-01-06''
                      (example_app 5 ''D'' True example_actuals_D))
       = \<lparr>appState.week = 6, dayId = ''A'', smartProgression = True\<rparr>"
    using saveSession_progression
      [OF sm, of 5 "''D''" example_actuals_D "''new''" "''2025-01-06T18:00:00.000Z''"
         "''2025-01-06''"]
    by (simp add: level_D_5 example_app_sel clamp_def)
  note tB = saveSession_progression
      [OF sm, of 1 "''B''" Map.empty "''new''" "''2025-01-06T18:00:00.000Z''"
         "''2025-01-06''"]
  have aB: "app.appState (saveSession ''new'' ''2025-01-06T18:00:00.000Z'' ''2025-01-06''
                      (example_app 1 ''B'' True Map.empty))
       = \<lparr>appState.week = 1, dayId = ''B'', smartProgression = True\<rparr>"
    using tB by (simp add: lvB example_app_sel)
  have "\<forall>sug \<in> set (app_reduceSuggestions (example_app 1 ''B'' True Map.empty)).
          app.customTargets (saveSession ''new'' ''2025-01-06T18:00:00.000Z'' ''2025-01-06''
                          (example_app 1 ''B'' True Map.empty))
            (targetPath (appState.week (app.appState (example_app 1 ''B'' True Map.empty)))
               (appState.dayId (app.appState (example_app 1 ''B'' True Map.empty)))
               (itemKey sug))
          = Some \<lparr>target.sets = Some (quantity.sets (to' sug)),
                  target.reps = Some (quantity.reps (to' sug))\<rparr>"
    using tB lvB by blast
  from bspec [OF this suggestion_B_1]
  have cB: "app.customTargets (saveSession ''new'' ''2025-01-06T18:00:00.000Z'' ''2025-01-06''
                          (example_app 1 ''B'' True Map.empty))
         (targetPath 1 ''B'' ''chairSquat:1'')
       = Some \<lparr>target.sets = Some 1, target.reps = Some 6\<rparr>"
    by (simp add: example_app_sel)
  from sm level_D_20 a20 level_D_5 a5 lvB aB suggestion_B_1 cB show ?thesis
    by (intro conjI)
qed

theorem saveSession_log_and_draft_witness:
  "\<not> smartProgression (app.appState (example_app 1 ''B'' False Map.empty))
   \<and> app.appState (saveSession ''new'' ''2025-01-06T18:00:00.000Z'' ''2025-01-07''
                      (example_app 1 ''B'' False Map.empty))
       = \<lparr>appState.week = 1, dayId = ''B'', smartProgression = False\<rparr>
   \<and> app.customTargets (saveSession ''new'' ''2025-01-06T18:00:00.000Z'' ''2025-01-07''
                          (example_app 1 ''B'' False Map.empty)) = Map.empty
   \<and> order (app.logs (saveSession ''new'' ''2025-01-06T18:00:00.000Z'' ''2025-01-07''
                         (example_app 1 ''B'' False Map.empty))) = [''new'', ''old'']
   \<and> ''old'' \<noteq> ''new''
   \<and> byId (app.logs (saveSession ''new'' ''2025-01-06T18:00:00.000Z'' ''2025-01-07''
                        (example_app 1 ''B'' False Map.empty))) ''old'' = Some example_log
   \<and> app.draft (saveSession ''new'' ''2025-01-06T18:00:00.000Z'' ''2025-01-07''
                    (example_app 1 ''B'' False Map.empty))
       = \<lparr>draft.actualByItemId = Map.empty, rpe = 7, completed = False,
          date = ''2025-01-07''\<rparr>"
  using saveSession_log_and_draft
    [of "example_app 1 ''B'' False Map.empty" "''new''" "''2025-01-06T18:00:00.000Z''"
        "''2025-01-07''"]
  by (simp add: example_app_sel)

end
